theory Spec2Isabelle
  imports Main "HOL-Library.Sublist" "HOL-Library.Word"
begin

section \<open>Python string primitives used by the transcript buffer\<close>

text \<open>
  A Python \<^verbatim>\<open>str\<close> is a sequence of Unicode code points; it is modelled as the list of
  their numbers (\<^verbatim>\<open>ord\<close>), and \<open>str\<close> turns a literal into such a list.
\<close>

type_synonym pystr = "int list"

definition str :: "string \<Rightarrow> pystr" where
  "str s = map of_char s"

text \<open>
  \<^verbatim>\<open>str.isspace\<close> of one character, which is also what \<^verbatim>\<open>\s\<close> matches and what
  \<^verbatim>\<open>str.strip()\<close> and \<^verbatim>\<open>str.split()\<close> cut at: the code points U+0009 to U+000D, U+001C to
  U+0020, U+0085, U+00A0, U+1680, U+2000 to U+200A, U+2028, U+2029, U+202F, U+205F and
  U+3000.
\<close>

definition isspace :: "int \<Rightarrow> bool" where
  "isspace c \<longleftrightarrow>
     (9 \<le> c \<and> c \<le> 13) \<or> (28 \<le> c \<and> c \<le> 32) \<or> c = 133 \<or> c = 160 \<or> c = 5760 \<or>
     (8192 \<le> c \<and> c \<le> 8202) \<or> c = 8232 \<or> c = 8233 \<or> c = 8239 \<or> c = 8287 \<or> c = 12288"

text \<open>The character class \<^verbatim>\<open>[a-z]\<close>: U+0061 to U+007A.\<close>

definition is_az :: "int \<Rightarrow> bool" where
  "is_az c \<longleftrightarrow> 97 \<le> c \<and> c \<le> 122"

text \<open>The character class \<^verbatim>\<open>[.!?]\<close>: U+002E, U+0021 and U+003F.\<close>

definition is_sentence_end :: "int \<Rightarrow> bool" where
  "is_sentence_end c \<longleftrightarrow> c = 46 \<or> c = 33 \<or> c = 63"

subsection \<open>The upper case of a character\<close>

text \<open>
  \<^verbatim>\<open>c.upper()\<close> for a string \<^verbatim>\<open>c\<close> of one character is a string of one to three characters.
  The tables below list every code point whose upper case is not the character itself,
  with its upper case, as \<^verbatim>\<open>str.upper\<close> of CPython 3.11 (Unicode 14.0) gives it: 1525
  code points, in blocks of 64. Among them \<^verbatim>\<open>a\<close> to \<^verbatim>\<open>z\<close> go to \<^verbatim>\<open>A\<close> to \<^verbatim>\<open>Z\<close>, U+00DF
  goes to \<^verbatim>\<open>SS\<close>, and U+00FF and U+00B5 leave Latin-1.
\<close>

definition upper_block_1 :: "(int \<times> int list) list" where
  "upper_block_1 =
    [(97, [65]), (98, [66]), (99, [67]), (100, [68]), (101, [69]), (102, [70]), (103, [71]),
     (104, [72]), (105, [73]), (106, [74]), (107, [75]), (108, [76]), (109, [77]), (110, [78]),
     (111, [79]), (112, [80]), (113, [81]), (114, [82]), (115, [83]), (116, [84]), (117, [85]),
     (118, [86]), (119, [87]), (120, [88]), (121, [89]), (122, [90])]"

definition upper_block_2 :: "(int \<times> int list) list" where
  "upper_block_2 =
    [(181, [924])]"

definition upper_block_3 :: "(int \<times> int list) list" where
  "upper_block_3 =
    [(223, [83, 83]), (224, [192]), (225, [193]), (226, [194]), (227, [195]), (228, [196]),
     (229, [197]), (230, [198]), (231, [199]), (232, [200]), (233, [201]), (234, [202]),
     (235, [203]), (236, [204]), (237, [205]), (238, [206]), (239, [207]), (240, [208]),
     (241, [209]), (242, [210]), (243, [211]), (244, [212]), (245, [213]), (246, [214]),
     (248, [216]), (249, [217]), (250, [218]), (251, [219]), (252, [220]), (253, [221]),
     (254, [222]), (255, [376])]"

definition upper_block_4 :: "(int \<times> int list) list" where
  "upper_block_4 =
    [(257, [256]), (259, [258]), (261, [260]), (263, [262]), (265, [264]), (267, [266]),
     (269, [268]), (271, [270]), (273, [272]), (275, [274]), (277, [276]), (279, [278]),
     (281, [280]), (283, [282]), (285, [284]), (287, [286]), (289, [288]), (291, [290]),
     (293, [292]), (295, [294]), (297, [296]), (299, [298]), (301, [300]), (303, [302]),
     (305, [73]), (307, [306]), (309, [308]), (311, [310]), (314, [313]), (316, [315]),
     (318, [317])]"

definition upper_block_5 :: "(int \<times> int list) list" where
  "upper_block_5 =
    [(320, [319]), (322, [321]), (324, [323]), (326, [325]), (328, [327]), (329, [700, 78]),
     (331, [330]), (333, [332]), (335, [334]), (337, [336]), (339, [338]), (341, [340]),
     (343, [342]), (345, [344]), (347, [346]), (349, [348]), (351, [350]), (353, [352]),
     (355, [354]), (357, [356]), (359, [358]), (361, [360]), (363, [362]), (365, [364]),
     (367, [366]), (369, [368]), (371, [370]), (373, [372]), (375, [374]), (378, [377]),
     (380, [379]), (382, [381]), (383, [83])]"

definition upper_block_6 :: "(int \<times> int list) list" where
  "upper_block_6 =
    [(384, [579]), (387, [386]), (389, [388]), (392, [391]), (396, [395]), (402, [401]),
     (405, [502]), (409, [408]), (410, [573]), (414, [544]), (417, [416]), (419, [418]),
     (421, [420]), (424, [423]), (429, [428]), (432, [431]), (436, [435]), (438, [437]),
     (441, [440]), (445, [444]), (447, [503])]"

definition upper_block_7 :: "(int \<times> int list) list" where
  "upper_block_7 =
    [(453, [452]), (454, [452]), (456, [455]), (457, [455]), (459, [458]), (460, [458]),
     (462, [461]), (464, [463]), (466, [465]), (468, [467]), (470, [469]), (472, [471]),
     (474, [473]), (476, [475]), (477, [398]), (479, [478]), (481, [480]), (483, [482]),
     (485, [484]), (487, [486]), (489, [488]), (491, [490]), (493, [492]), (495, [494]),
     (496, [74, 780]), (498, [497]), (499, [497]), (501, [500]), (505, [504]), (507, [506]),
     (509, [508]), (511, [510])]"

definition upper_block_8 :: "(int \<times> int list) list" where
  "upper_block_8 =
    [(513, [512]), (515, [514]), (517, [516]), (519, [518]), (521, [520]), (523, [522]),
     (525, [524]), (527, [526]), (529, [528]), (531, [530]), (533, [532]), (535, [534]),
     (537, [536]), (539, [538]), (541, [540]), (543, [542]), (547, [546]), (549, [548]),
     (551, [550]), (553, [552]), (555, [554]), (557, [556]), (559, [558]), (561, [560]),
     (563, [562]), (572, [571]), (575, [11390])]"

definition upper_block_9 :: "(int \<times> int list) list" where
  "upper_block_9 =
    [(576, [11391]), (578, [577]), (583, [582]), (585, [584]), (587, [586]), (589, [588]),
     (591, [590]), (592, [11375]), (593, [11373]), (594, [11376]), (595, [385]), (596, [390]),
     (598, [393]), (599, [394]), (601, [399]), (603, [400]), (604, [42923]), (608, [403]),
     (609, [42924]), (611, [404]), (613, [42893]), (614, [42922]), (616, [407]), (617, [406]),
     (618, [42926]), (619, [11362]), (620, [42925]), (623, [412]), (625, [11374]),
     (626, [413]), (629, [415]), (637, [11364])]"

definition upper_block_10 :: "(int \<times> int list) list" where
  "upper_block_10 =
    [(640, [422]), (642, [42949]), (643, [425]), (647, [42929]), (648, [430]), (649, [580]),
     (650, [433]), (651, [434]), (652, [581]), (658, [439]), (669, [42930]), (670, [42928])]"

definition upper_block_13 :: "(int \<times> int list) list" where
  "upper_block_13 =
    [(837, [921]), (881, [880]), (883, [882]), (887, [886]), (891, [1021]), (892, [1022]),
     (893, [1023])]"

definition upper_block_14 :: "(int \<times> int list) list" where
  "upper_block_14 =
    [(912, [921, 776, 769]), (940, [902]), (941, [904]), (942, [905]), (943, [906]),
     (944, [933, 776, 769]), (945, [913]), (946, [914]), (947, [915]), (948, [916]),
     (949, [917]), (950, [918]), (951, [919]), (952, [920]), (953, [921]), (954, [922]),
     (955, [923]), (956, [924]), (957, [925]), (958, [926]), (959, [927])]"

definition upper_block_15 :: "(int \<times> int list) list" where
  "upper_block_15 =
    [(960, [928]), (961, [929]), (962, [931]), (963, [931]), (964, [932]), (965, [933]),
     (966, [934]), (967, [935]), (968, [936]), (969, [937]), (970, [938]), (971, [939]),
     (972, [908]), (973, [910]), (974, [911]), (976, [914]), (977, [920]), (981, [934]),
     (982, [928]), (983, [975]), (985, [984]), (987, [986]), (989, [988]), (991, [990]),
     (993, [992]), (995, [994]), (997, [996]), (999, [998]), (1001, [1000]), (1003, [1002]),
     (1005, [1004]), (1007, [1006]), (1008, [922]), (1009, [929]), (1010, [1017]),
     (1011, [895]), (1013, [917]), (1016, [1015]), (1019, [1018])]"

definition upper_block_16 :: "(int \<times> int list) list" where
  "upper_block_16 =
    [(1072, [1040]), (1073, [1041]), (1074, [1042]), (1075, [1043]), (1076, [1044]),
     (1077, [1045]), (1078, [1046]), (1079, [1047]), (1080, [1048]), (1081, [1049]),
     (1082, [1050]), (1083, [1051]), (1084, [1052]), (1085, [1053]), (1086, [1054]),
     (1087, [1055])]"

definition upper_block_17 :: "(int \<times> int list) list" where
  "upper_block_17 =
    [(1088, [1056]), (1089, [1057]), (1090, [1058]), (1091, [1059]), (1092, [1060]),
     (1093, [1061]), (1094, [1062]), (1095, [1063]), (1096, [1064]), (1097, [1065]),
     (1098, [1066]), (1099, [1067]), (1100, [1068]), (1101, [1069]), (1102, [1070]),
     (1103, [1071]), (1104, [1024]), (1105, [1025]), (1106, [1026]), (1107, [1027]),
     (1108, [1028]), (1109, [1029]), (1110, [1030]), (1111, [1031]), (1112, [1032]),
     (1113, [1033]), (1114, [1034]), (1115, [1035]), (1116, [1036]), (1117, [1037]),
     (1118, [1038]), (1119, [1039]), (1121, [1120]), (1123, [1122]), (1125, [1124]),
     (1127, [1126]), (1129, [1128]), (1131, [1130]), (1133, [1132]), (1135, [1134]),
     (1137, [1136]), (1139, [1138]), (1141, [1140]), (1143, [1142]), (1145, [1144]),
     (1147, [1146]), (1149, [1148]), (1151, [1150])]"

definition upper_block_18 :: "(int \<times> int list) list" where
  "upper_block_18 =
    [(1153, [1152]), (1163, [1162]), (1165, [1164]), (1167, [1166]), (1169, [1168]),
     (1171, [1170]), (1173, [1172]), (1175, [1174]), (1177, [1176]), (1179, [1178]),
     (1181, [1180]), (1183, [1182]), (1185, [1184]), (1187, [1186]), (1189, [1188]),
     (1191, [1190]), (1193, [1192]), (1195, [1194]), (1197, [1196]), (1199, [1198]),
     (1201, [1200]), (1203, [1202]), (1205, [1204]), (1207, [1206]), (1209, [1208]),
     (1211, [1210]), (1213, [1212]), (1215, [1214])]"

definition upper_block_19 :: "(int \<times> int list) list" where
  "upper_block_19 =
    [(1218, [1217]), (1220, [1219]), (1222, [1221]), (1224, [1223]), (1226, [1225]),
     (1228, [1227]), (1230, [1229]), (1231, [1216]), (1233, [1232]), (1235, [1234]),
     (1237, [1236]), (1239, [1238]), (1241, [1240]), (1243, [1242]), (1245, [1244]),
     (1247, [1246]), (1249, [1248]), (1251, [1250]), (1253, [1252]), (1255, [1254]),
     (1257, [1256]), (1259, [1258]), (1261, [1260]), (1263, [1262]), (1265, [1264]),
     (1267, [1266]), (1269, [1268]), (1271, [1270]), (1273, [1272]), (1275, [1274]),
     (1277, [1276]), (1279, [1278])]"

definition upper_block_20 :: "(int \<times> int list) list" where
  "upper_block_20 =
    [(1281, [1280]), (1283, [1282]), (1285, [1284]), (1287, [1286]), (1289, [1288]),
     (1291, [1290]), (1293, [1292]), (1295, [1294]), (1297, [1296]), (1299, [1298]),
     (1301, [1300]), (1303, [1302]), (1305, [1304]), (1307, [1306]), (1309, [1308]),
     (1311, [1310]), (1313, [1312]), (1315, [1314]), (1317, [1316]), (1319, [1318]),
     (1321, [1320]), (1323, [1322]), (1325, [1324]), (1327, [1326])]"

definition upper_block_21 :: "(int \<times> int list) list" where
  "upper_block_21 =
    [(1377, [1329]), (1378, [1330]), (1379, [1331]), (1380, [1332]), (1381, [1333]),
     (1382, [1334]), (1383, [1335]), (1384, [1336]), (1385, [1337]), (1386, [1338]),
     (1387, [1339]), (1388, [1340]), (1389, [1341]), (1390, [1342]), (1391, [1343]),
     (1392, [1344]), (1393, [1345]), (1394, [1346]), (1395, [1347]), (1396, [1348]),
     (1397, [1349]), (1398, [1350]), (1399, [1351]), (1400, [1352]), (1401, [1353]),
     (1402, [1354]), (1403, [1355]), (1404, [1356]), (1405, [1357]), (1406, [1358]),
     (1407, [1359])]"

definition upper_block_22 :: "(int \<times> int list) list" where
  "upper_block_22 =
    [(1408, [1360]), (1409, [1361]), (1410, [1362]), (1411, [1363]), (1412, [1364]),
     (1413, [1365]), (1414, [1366]), (1415, [1333, 1362])]"

definition upper_block_67 :: "(int \<times> int list) list" where
  "upper_block_67 =
    [(4304, [7312]), (4305, [7313]), (4306, [7314]), (4307, [7315]), (4308, [7316]),
     (4309, [7317]), (4310, [7318]), (4311, [7319]), (4312, [7320]), (4313, [7321]),
     (4314, [7322]), (4315, [7323]), (4316, [7324]), (4317, [7325]), (4318, [7326]),
     (4319, [7327]), (4320, [7328]), (4321, [7329]), (4322, [7330]), (4323, [7331]),
     (4324, [7332]), (4325, [7333]), (4326, [7334]), (4327, [7335]), (4328, [7336]),
     (4329, [7337]), (4330, [7338]), (4331, [7339]), (4332, [7340]), (4333, [7341]),
     (4334, [7342]), (4335, [7343]), (4336, [7344]), (4337, [7345]), (4338, [7346]),
     (4339, [7347]), (4340, [7348]), (4341, [7349]), (4342, [7350]), (4343, [7351]),
     (4344, [7352]), (4345, [7353]), (4346, [7354]), (4349, [7357]), (4350, [7358]),
     (4351, [7359])]"

definition upper_block_79 :: "(int \<times> int list) list" where
  "upper_block_79 =
    [(5112, [5104]), (5113, [5105]), (5114, [5106]), (5115, [5107]), (5116, [5108]),
     (5117, [5109])]"

definition upper_block_114 :: "(int \<times> int list) list" where
  "upper_block_114 =
    [(7296, [1042]), (7297, [1044]), (7298, [1054]), (7299, [1057]), (7300, [1058]),
     (7301, [1058]), (7302, [1066]), (7303, [1122]), (7304, [42570])]"

definition upper_block_117 :: "(int \<times> int list) list" where
  "upper_block_117 =
    [(7545, [42877]), (7549, [11363])]"

definition upper_block_118 :: "(int \<times> int list) list" where
  "upper_block_118 =
    [(7566, [42950])]"

definition upper_block_120 :: "(int \<times> int list) list" where
  "upper_block_120 =
    [(7681, [7680]), (7683, [7682]), (7685, [7684]), (7687, [7686]), (7689, [7688]),
     (7691, [7690]), (7693, [7692]), (7695, [7694]), (7697, [7696]), (7699, [7698]),
     (7701, [7700]), (7703, [7702]), (7705, [7704]), (7707, [7706]), (7709, [7708]),
     (7711, [7710]), (7713, [7712]), (7715, [7714]), (7717, [7716]), (7719, [7718]),
     (7721, [7720]), (7723, [7722]), (7725, [7724]), (7727, [7726]), (7729, [7728]),
     (7731, [7730]), (7733, [7732]), (7735, [7734]), (7737, [7736]), (7739, [7738]),
     (7741, [7740]), (7743, [7742])]"

definition upper_block_121 :: "(int \<times> int list) list" where
  "upper_block_121 =
    [(7745, [7744]), (7747, [7746]), (7749, [7748]), (7751, [7750]), (7753, [7752]),
     (7755, [7754]), (7757, [7756]), (7759, [7758]), (7761, [7760]), (7763, [7762]),
     (7765, [7764]), (7767, [7766]), (7769, [7768]), (7771, [7770]), (7773, [7772]),
     (7775, [7774]), (7777, [7776]), (7779, [7778]), (7781, [7780]), (7783, [7782]),
     (7785, [7784]), (7787, [7786]), (7789, [7788]), (7791, [7790]), (7793, [7792]),
     (7795, [7794]), (7797, [7796]), (7799, [7798]), (7801, [7800]), (7803, [7802]),
     (7805, [7804]), (7807, [7806])]"

definition upper_block_122 :: "(int \<times> int list) list" where
  "upper_block_122 =
    [(7809, [7808]), (7811, [7810]), (7813, [7812]), (7815, [7814]), (7817, [7816]),
     (7819, [7818]), (7821, [7820]), (7823, [7822]), (7825, [7824]), (7827, [7826]),
     (7829, [7828]), (7830, [72, 817]), (7831, [84, 776]), (7832, [87, 778]),
     (7833, [89, 778]), (7834, [65, 702]), (7835, [7776]), (7841, [7840]), (7843, [7842]),
     (7845, [7844]), (7847, [7846]), (7849, [7848]), (7851, [7850]), (7853, [7852]),
     (7855, [7854]), (7857, [7856]), (7859, [7858]), (7861, [7860]), (7863, [7862]),
     (7865, [7864]), (7867, [7866]), (7869, [7868]), (7871, [7870])]"

definition upper_block_123 :: "(int \<times> int list) list" where
  "upper_block_123 =
    [(7873, [7872]), (7875, [7874]), (7877, [7876]), (7879, [7878]), (7881, [7880]),
     (7883, [7882]), (7885, [7884]), (7887, [7886]), (7889, [7888]), (7891, [7890]),
     (7893, [7892]), (7895, [7894]), (7897, [7896]), (7899, [7898]), (7901, [7900]),
     (7903, [7902]), (7905, [7904]), (7907, [7906]), (7909, [7908]), (7911, [7910]),
     (7913, [7912]), (7915, [7914]), (7917, [7916]), (7919, [7918]), (7921, [7920]),
     (7923, [7922]), (7925, [7924]), (7927, [7926]), (7929, [7928]), (7931, [7930]),
     (7933, [7932]), (7935, [7934])]"

definition upper_block_124 :: "(int \<times> int list) list" where
  "upper_block_124 =
    [(7936, [7944]), (7937, [7945]), (7938, [7946]), (7939, [7947]), (7940, [7948]),
     (7941, [7949]), (7942, [7950]), (7943, [7951]), (7952, [7960]), (7953, [7961]),
     (7954, [7962]), (7955, [7963]), (7956, [7964]), (7957, [7965]), (7968, [7976]),
     (7969, [7977]), (7970, [7978]), (7971, [7979]), (7972, [7980]), (7973, [7981]),
     (7974, [7982]), (7975, [7983]), (7984, [7992]), (7985, [7993]), (7986, [7994]),
     (7987, [7995]), (7988, [7996]), (7989, [7997]), (7990, [7998]), (7991, [7999])]"

definition upper_block_125 :: "(int \<times> int list) list" where
  "upper_block_125 =
    [(8000, [8008]), (8001, [8009]), (8002, [8010]), (8003, [8011]), (8004, [8012]),
     (8005, [8013]), (8016, [933, 787]), (8017, [8025]), (8018, [933, 787, 768]),
     (8019, [8027]), (8020, [933, 787, 769]), (8021, [8029]), (8022, [933, 787, 834]),
     (8023, [8031]), (8032, [8040]), (8033, [8041]), (8034, [8042]), (8035, [8043]),
     (8036, [8044]), (8037, [8045]), (8038, [8046]), (8039, [8047]), (8048, [8122]),
     (8049, [8123]), (8050, [8136]), (8051, [8137]), (8052, [8138]), (8053, [8139]),
     (8054, [8154]), (8055, [8155]), (8056, [8184]), (8057, [8185]), (8058, [8170]),
     (8059, [8171]), (8060, [8186]), (8061, [8187])]"

definition upper_block_126 :: "(int \<times> int list) list" where
  "upper_block_126 =
    [(8064, [7944, 921]), (8065, [7945, 921]), (8066, [7946, 921]), (8067, [7947, 921]),
     (8068, [7948, 921]), (8069, [7949, 921]), (8070, [7950, 921]), (8071, [7951, 921]),
     (8072, [7944, 921]), (8073, [7945, 921]), (8074, [7946, 921]), (8075, [7947, 921]),
     (8076, [7948, 921]), (8077, [7949, 921]), (8078, [7950, 921]), (8079, [7951, 921]),
     (8080, [7976, 921]), (8081, [7977, 921]), (8082, [7978, 921]), (8083, [7979, 921]),
     (8084, [7980, 921]), (8085, [7981, 921]), (8086, [7982, 921]), (8087, [7983, 921]),
     (8088, [7976, 921]), (8089, [7977, 921]), (8090, [7978, 921]), (8091, [7979, 921]),
     (8092, [7980, 921]), (8093, [7981, 921]), (8094, [7982, 921]), (8095, [7983, 921]),
     (8096, [8040, 921]), (8097, [8041, 921]), (8098, [8042, 921]), (8099, [8043, 921]),
     (8100, [8044, 921]), (8101, [8045, 921]), (8102, [8046, 921]), (8103, [8047, 921]),
     (8104, [8040, 921]), (8105, [8041, 921]), (8106, [8042, 921]), (8107, [8043, 921]),
     (8108, [8044, 921]), (8109, [8045, 921]), (8110, [8046, 921]), (8111, [8047, 921]),
     (8112, [8120]), (8113, [8121]), (8114, [8122, 921]), (8115, [913, 921]),
     (8116, [902, 921]), (8118, [913, 834]), (8119, [913, 834, 921]), (8124, [913, 921]),
     (8126, [921])]"

definition upper_block_127 :: "(int \<times> int list) list" where
  "upper_block_127 =
    [(8130, [8138, 921]), (8131, [919, 921]), (8132, [905, 921]), (8134, [919, 834]),
     (8135, [919, 834, 921]), (8140, [919, 921]), (8144, [8152]), (8145, [8153]),
     (8146, [921, 776, 768]), (8147, [921, 776, 769]), (8150, [921, 834]),
     (8151, [921, 776, 834]), (8160, [8168]), (8161, [8169]), (8162, [933, 776, 768]),
     (8163, [933, 776, 769]), (8164, [929, 787]), (8165, [8172]), (8166, [933, 834]),
     (8167, [933, 776, 834]), (8178, [8186, 921]), (8179, [937, 921]), (8180, [911, 921]),
     (8182, [937, 834]), (8183, [937, 834, 921]), (8188, [937, 921])]"

definition upper_block_133 :: "(int \<times> int list) list" where
  "upper_block_133 =
    [(8526, [8498]), (8560, [8544]), (8561, [8545]), (8562, [8546]), (8563, [8547]),
     (8564, [8548]), (8565, [8549]), (8566, [8550]), (8567, [8551]), (8568, [8552]),
     (8569, [8553]), (8570, [8554]), (8571, [8555]), (8572, [8556]), (8573, [8557]),
     (8574, [8558]), (8575, [8559])]"

definition upper_block_134 :: "(int \<times> int list) list" where
  "upper_block_134 =
    [(8580, [8579])]"

definition upper_block_147 :: "(int \<times> int list) list" where
  "upper_block_147 =
    [(9424, [9398]), (9425, [9399]), (9426, [9400]), (9427, [9401]), (9428, [9402]),
     (9429, [9403]), (9430, [9404]), (9431, [9405]), (9432, [9406]), (9433, [9407]),
     (9434, [9408]), (9435, [9409]), (9436, [9410]), (9437, [9411]), (9438, [9412]),
     (9439, [9413]), (9440, [9414]), (9441, [9415]), (9442, [9416]), (9443, [9417]),
     (9444, [9418]), (9445, [9419]), (9446, [9420]), (9447, [9421]), (9448, [9422]),
     (9449, [9423])]"

definition upper_block_176 :: "(int \<times> int list) list" where
  "upper_block_176 =
    [(11312, [11264]), (11313, [11265]), (11314, [11266]), (11315, [11267]), (11316, [11268]),
     (11317, [11269]), (11318, [11270]), (11319, [11271]), (11320, [11272]), (11321, [11273]),
     (11322, [11274]), (11323, [11275]), (11324, [11276]), (11325, [11277]), (11326, [11278]),
     (11327, [11279])]"

definition upper_block_177 :: "(int \<times> int list) list" where
  "upper_block_177 =
    [(11328, [11280]), (11329, [11281]), (11330, [11282]), (11331, [11283]), (11332, [11284]),
     (11333, [11285]), (11334, [11286]), (11335, [11287]), (11336, [11288]), (11337, [11289]),
     (11338, [11290]), (11339, [11291]), (11340, [11292]), (11341, [11293]), (11342, [11294]),
     (11343, [11295]), (11344, [11296]), (11345, [11297]), (11346, [11298]), (11347, [11299]),
     (11348, [11300]), (11349, [11301]), (11350, [11302]), (11351, [11303]), (11352, [11304]),
     (11353, [11305]), (11354, [11306]), (11355, [11307]), (11356, [11308]), (11357, [11309]),
     (11358, [11310]), (11359, [11311]), (11361, [11360]), (11365, [570]), (11366, [574]),
     (11368, [11367]), (11370, [11369]), (11372, [11371]), (11379, [11378]), (11382, [11381])]"

definition upper_block_178 :: "(int \<times> int list) list" where
  "upper_block_178 =
    [(11393, [11392]), (11395, [11394]), (11397, [11396]), (11399, [11398]), (11401, [11400]),
     (11403, [11402]), (11405, [11404]), (11407, [11406]), (11409, [11408]), (11411, [11410]),
     (11413, [11412]), (11415, [11414]), (11417, [11416]), (11419, [11418]), (11421, [11420]),
     (11423, [11422]), (11425, [11424]), (11427, [11426]), (11429, [11428]), (11431, [11430]),
     (11433, [11432]), (11435, [11434]), (11437, [11436]), (11439, [11438]), (11441, [11440]),
     (11443, [11442]), (11445, [11444]), (11447, [11446]), (11449, [11448]), (11451, [11450]),
     (11453, [11452]), (11455, [11454])]"

definition upper_block_179 :: "(int \<times> int list) list" where
  "upper_block_179 =
    [(11457, [11456]), (11459, [11458]), (11461, [11460]), (11463, [11462]), (11465, [11464]),
     (11467, [11466]), (11469, [11468]), (11471, [11470]), (11473, [11472]), (11475, [11474]),
     (11477, [11476]), (11479, [11478]), (11481, [11480]), (11483, [11482]), (11485, [11484]),
     (11487, [11486]), (11489, [11488]), (11491, [11490]), (11500, [11499]), (11502, [11501]),
     (11507, [11506])]"

definition upper_block_180 :: "(int \<times> int list) list" where
  "upper_block_180 =
    [(11520, [4256]), (11521, [4257]), (11522, [4258]), (11523, [4259]), (11524, [4260]),
     (11525, [4261]), (11526, [4262]), (11527, [4263]), (11528, [4264]), (11529, [4265]),
     (11530, [4266]), (11531, [4267]), (11532, [4268]), (11533, [4269]), (11534, [4270]),
     (11535, [4271]), (11536, [4272]), (11537, [4273]), (11538, [4274]), (11539, [4275]),
     (11540, [4276]), (11541, [4277]), (11542, [4278]), (11543, [4279]), (11544, [4280]),
     (11545, [4281]), (11546, [4282]), (11547, [4283]), (11548, [4284]), (11549, [4285]),
     (11550, [4286]), (11551, [4287]), (11552, [4288]), (11553, [4289]), (11554, [4290]),
     (11555, [4291]), (11556, [4292]), (11557, [4293]), (11559, [4295]), (11565, [4301])]"

definition upper_block_665 :: "(int \<times> int list) list" where
  "upper_block_665 =
    [(42561, [42560]), (42563, [42562]), (42565, [42564]), (42567, [42566]), (42569, [42568]),
     (42571, [42570]), (42573, [42572]), (42575, [42574]), (42577, [42576]), (42579, [42578]),
     (42581, [42580]), (42583, [42582]), (42585, [42584]), (42587, [42586]), (42589, [42588]),
     (42591, [42590]), (42593, [42592]), (42595, [42594]), (42597, [42596]), (42599, [42598]),
     (42601, [42600]), (42603, [42602]), (42605, [42604])]"

definition upper_block_666 :: "(int \<times> int list) list" where
  "upper_block_666 =
    [(42625, [42624]), (42627, [42626]), (42629, [42628]), (42631, [42630]), (42633, [42632]),
     (42635, [42634]), (42637, [42636]), (42639, [42638]), (42641, [42640]), (42643, [42642]),
     (42645, [42644]), (42647, [42646]), (42649, [42648]), (42651, [42650])]"

definition upper_block_668 :: "(int \<times> int list) list" where
  "upper_block_668 =
    [(42787, [42786]), (42789, [42788]), (42791, [42790]), (42793, [42792]), (42795, [42794]),
     (42797, [42796]), (42799, [42798]), (42803, [42802]), (42805, [42804]), (42807, [42806]),
     (42809, [42808]), (42811, [42810]), (42813, [42812]), (42815, [42814])]"

definition upper_block_669 :: "(int \<times> int list) list" where
  "upper_block_669 =
    [(42817, [42816]), (42819, [42818]), (42821, [42820]), (42823, [42822]), (42825, [42824]),
     (42827, [42826]), (42829, [42828]), (42831, [42830]), (42833, [42832]), (42835, [42834]),
     (42837, [42836]), (42839, [42838]), (42841, [42840]), (42843, [42842]), (42845, [42844]),
     (42847, [42846]), (42849, [42848]), (42851, [42850]), (42853, [42852]), (42855, [42854]),
     (42857, [42856]), (42859, [42858]), (42861, [42860]), (42863, [42862]), (42874, [42873]),
     (42876, [42875]), (42879, [42878])]"

definition upper_block_670 :: "(int \<times> int list) list" where
  "upper_block_670 =
    [(42881, [42880]), (42883, [42882]), (42885, [42884]), (42887, [42886]), (42892, [42891]),
     (42897, [42896]), (42899, [42898]), (42900, [42948]), (42903, [42902]), (42905, [42904]),
     (42907, [42906]), (42909, [42908]), (42911, [42910]), (42913, [42912]), (42915, [42914]),
     (42917, [42916]), (42919, [42918]), (42921, [42920]), (42933, [42932]), (42935, [42934]),
     (42937, [42936]), (42939, [42938]), (42941, [42940]), (42943, [42942])]"

definition upper_block_671 :: "(int \<times> int list) list" where
  "upper_block_671 =
    [(42945, [42944]), (42947, [42946]), (42952, [42951]), (42954, [42953]), (42961, [42960]),
     (42967, [42966]), (42969, [42968]), (42998, [42997])]"

definition upper_block_685 :: "(int \<times> int list) list" where
  "upper_block_685 =
    [(43859, [42931]), (43888, [5024]), (43889, [5025]), (43890, [5026]), (43891, [5027]),
     (43892, [5028]), (43893, [5029]), (43894, [5030]), (43895, [5031]), (43896, [5032]),
     (43897, [5033]), (43898, [5034]), (43899, [5035]), (43900, [5036]), (43901, [5037]),
     (43902, [5038]), (43903, [5039])]"

definition upper_block_686 :: "(int \<times> int list) list" where
  "upper_block_686 =
    [(43904, [5040]), (43905, [5041]), (43906, [5042]), (43907, [5043]), (43908, [5044]),
     (43909, [5045]), (43910, [5046]), (43911, [5047]), (43912, [5048]), (43913, [5049]),
     (43914, [5050]), (43915, [5051]), (43916, [5052]), (43917, [5053]), (43918, [5054]),
     (43919, [5055]), (43920, [5056]), (43921, [5057]), (43922, [5058]), (43923, [5059]),
     (43924, [5060]), (43925, [5061]), (43926, [5062]), (43927, [5063]), (43928, [5064]),
     (43929, [5065]), (43930, [5066]), (43931, [5067]), (43932, [5068]), (43933, [5069]),
     (43934, [5070]), (43935, [5071]), (43936, [5072]), (43937, [5073]), (43938, [5074]),
     (43939, [5075]), (43940, [5076]), (43941, [5077]), (43942, [5078]), (43943, [5079]),
     (43944, [5080]), (43945, [5081]), (43946, [5082]), (43947, [5083]), (43948, [5084]),
     (43949, [5085]), (43950, [5086]), (43951, [5087]), (43952, [5088]), (43953, [5089]),
     (43954, [5090]), (43955, [5091]), (43956, [5092]), (43957, [5093]), (43958, [5094]),
     (43959, [5095]), (43960, [5096]), (43961, [5097]), (43962, [5098]), (43963, [5099]),
     (43964, [5100]), (43965, [5101]), (43966, [5102]), (43967, [5103])]"

definition upper_block_1004 :: "(int \<times> int list) list" where
  "upper_block_1004 =
    [(64256, [70, 70]), (64257, [70, 73]), (64258, [70, 76]), (64259, [70, 70, 73]),
     (64260, [70, 70, 76]), (64261, [83, 84]), (64262, [83, 84]), (64275, [1348, 1350]),
     (64276, [1348, 1333]), (64277, [1348, 1339]), (64278, [1358, 1350]), (64279, [1348, 1341])]"

definition upper_block_1021 :: "(int \<times> int list) list" where
  "upper_block_1021 =
    [(65345, [65313]), (65346, [65314]), (65347, [65315]), (65348, [65316]), (65349, [65317]),
     (65350, [65318]), (65351, [65319]), (65352, [65320]), (65353, [65321]), (65354, [65322]),
     (65355, [65323]), (65356, [65324]), (65357, [65325]), (65358, [65326]), (65359, [65327]),
     (65360, [65328]), (65361, [65329]), (65362, [65330]), (65363, [65331]), (65364, [65332]),
     (65365, [65333]), (65366, [65334]), (65367, [65335]), (65368, [65336]), (65369, [65337]),
     (65370, [65338])]"

definition upper_block_1040 :: "(int \<times> int list) list" where
  "upper_block_1040 =
    [(66600, [66560]), (66601, [66561]), (66602, [66562]), (66603, [66563]), (66604, [66564]),
     (66605, [66565]), (66606, [66566]), (66607, [66567]), (66608, [66568]), (66609, [66569]),
     (66610, [66570]), (66611, [66571]), (66612, [66572]), (66613, [66573]), (66614, [66574]),
     (66615, [66575]), (66616, [66576]), (66617, [66577]), (66618, [66578]), (66619, [66579]),
     (66620, [66580]), (66621, [66581]), (66622, [66582]), (66623, [66583])]"

definition upper_block_1041 :: "(int \<times> int list) list" where
  "upper_block_1041 =
    [(66624, [66584]), (66625, [66585]), (66626, [66586]), (66627, [66587]), (66628, [66588]),
     (66629, [66589]), (66630, [66590]), (66631, [66591]), (66632, [66592]), (66633, [66593]),
     (66634, [66594]), (66635, [66595]), (66636, [66596]), (66637, [66597]), (66638, [66598]),
     (66639, [66599])]"

definition upper_block_1043 :: "(int \<times> int list) list" where
  "upper_block_1043 =
    [(66776, [66736]), (66777, [66737]), (66778, [66738]), (66779, [66739]), (66780, [66740]),
     (66781, [66741]), (66782, [66742]), (66783, [66743]), (66784, [66744]), (66785, [66745]),
     (66786, [66746]), (66787, [66747]), (66788, [66748]), (66789, [66749]), (66790, [66750]),
     (66791, [66751]), (66792, [66752]), (66793, [66753]), (66794, [66754]), (66795, [66755]),
     (66796, [66756]), (66797, [66757]), (66798, [66758]), (66799, [66759]), (66800, [66760]),
     (66801, [66761]), (66802, [66762]), (66803, [66763]), (66804, [66764]), (66805, [66765]),
     (66806, [66766]), (66807, [66767]), (66808, [66768]), (66809, [66769]), (66810, [66770]),
     (66811, [66771])]"

definition upper_block_1046 :: "(int \<times> int list) list" where
  "upper_block_1046 =
    [(66967, [66928]), (66968, [66929]), (66969, [66930]), (66970, [66931]), (66971, [66932]),
     (66972, [66933]), (66973, [66934]), (66974, [66935]), (66975, [66936]), (66976, [66937]),
     (66977, [66938]), (66979, [66940]), (66980, [66941]), (66981, [66942]), (66982, [66943]),
     (66983, [66944]), (66984, [66945]), (66985, [66946]), (66986, [66947]), (66987, [66948]),
     (66988, [66949]), (66989, [66950]), (66990, [66951]), (66991, [66952]), (66992, [66953]),
     (66993, [66954]), (66995, [66956]), (66996, [66957]), (66997, [66958]), (66998, [66959]),
     (66999, [66960]), (67000, [66961]), (67001, [66962]), (67003, [66964]), (67004, [66965])]"

definition upper_block_1075 :: "(int \<times> int list) list" where
  "upper_block_1075 =
    [(68800, [68736]), (68801, [68737]), (68802, [68738]), (68803, [68739]), (68804, [68740]),
     (68805, [68741]), (68806, [68742]), (68807, [68743]), (68808, [68744]), (68809, [68745]),
     (68810, [68746]), (68811, [68747]), (68812, [68748]), (68813, [68749]), (68814, [68750]),
     (68815, [68751]), (68816, [68752]), (68817, [68753]), (68818, [68754]), (68819, [68755]),
     (68820, [68756]), (68821, [68757]), (68822, [68758]), (68823, [68759]), (68824, [68760]),
     (68825, [68761]), (68826, [68762]), (68827, [68763]), (68828, [68764]), (68829, [68765]),
     (68830, [68766]), (68831, [68767]), (68832, [68768]), (68833, [68769]), (68834, [68770]),
     (68835, [68771]), (68836, [68772]), (68837, [68773]), (68838, [68774]), (68839, [68775]),
     (68840, [68776]), (68841, [68777]), (68842, [68778]), (68843, [68779]), (68844, [68780]),
     (68845, [68781]), (68846, [68782]), (68847, [68783]), (68848, [68784]), (68849, [68785]),
     (68850, [68786])]"

definition upper_block_1123 :: "(int \<times> int list) list" where
  "upper_block_1123 =
    [(71872, [71840]), (71873, [71841]), (71874, [71842]), (71875, [71843]), (71876, [71844]),
     (71877, [71845]), (71878, [71846]), (71879, [71847]), (71880, [71848]), (71881, [71849]),
     (71882, [71850]), (71883, [71851]), (71884, [71852]), (71885, [71853]), (71886, [71854]),
     (71887, [71855]), (71888, [71856]), (71889, [71857]), (71890, [71858]), (71891, [71859]),
     (71892, [71860]), (71893, [71861]), (71894, [71862]), (71895, [71863]), (71896, [71864]),
     (71897, [71865]), (71898, [71866]), (71899, [71867]), (71900, [71868]), (71901, [71869]),
     (71902, [71870]), (71903, [71871])]"

definition upper_block_1465 :: "(int \<times> int list) list" where
  "upper_block_1465 =
    [(93792, [93760]), (93793, [93761]), (93794, [93762]), (93795, [93763]), (93796, [93764]),
     (93797, [93765]), (93798, [93766]), (93799, [93767]), (93800, [93768]), (93801, [93769]),
     (93802, [93770]), (93803, [93771]), (93804, [93772]), (93805, [93773]), (93806, [93774]),
     (93807, [93775]), (93808, [93776]), (93809, [93777]), (93810, [93778]), (93811, [93779]),
     (93812, [93780]), (93813, [93781]), (93814, [93782]), (93815, [93783]), (93816, [93784]),
     (93817, [93785]), (93818, [93786]), (93819, [93787]), (93820, [93788]), (93821, [93789]),
     (93822, [93790]), (93823, [93791])]"

definition upper_block_1956 :: "(int \<times> int list) list" where
  "upper_block_1956 =
    [(125218, [125184]), (125219, [125185]), (125220, [125186]), (125221, [125187]),
     (125222, [125188]), (125223, [125189]), (125224, [125190]), (125225, [125191]),
     (125226, [125192]), (125227, [125193]), (125228, [125194]), (125229, [125195]),
     (125230, [125196]), (125231, [125197]), (125232, [125198]), (125233, [125199]),
     (125234, [125200]), (125235, [125201]), (125236, [125202]), (125237, [125203]),
     (125238, [125204]), (125239, [125205]), (125240, [125206]), (125241, [125207]),
     (125242, [125208]), (125243, [125209]), (125244, [125210]), (125245, [125211]),
     (125246, [125212]), (125247, [125213])]"

definition upper_block_1957 :: "(int \<times> int list) list" where
  "upper_block_1957 =
    [(125248, [125214]), (125249, [125215]), (125250, [125216]), (125251, [125217])]"

text \<open>The entries for the code points \<open>c\<close> with \<open>c div 64 = b\<close>.\<close>

definition upper_block :: "int \<Rightarrow> (int \<times> int list) list" where
  "upper_block b =
     (if b = 1 then upper_block_1
      else if b = 2 then upper_block_2
      else if b = 3 then upper_block_3
      else if b = 4 then upper_block_4
      else if b = 5 then upper_block_5
      else if b = 6 then upper_block_6
      else if b = 7 then upper_block_7
      else if b = 8 then upper_block_8
      else if b = 9 then upper_block_9
      else if b = 10 then upper_block_10
      else if b = 13 then upper_block_13
      else if b = 14 then upper_block_14
      else if b = 15 then upper_block_15
      else if b = 16 then upper_block_16
      else if b = 17 then upper_block_17
      else if b = 18 then upper_block_18
      else if b = 19 then upper_block_19
      else if b = 20 then upper_block_20
      else if b = 21 then upper_block_21
      else if b = 22 then upper_block_22
      else if b = 67 then upper_block_67
      else if b = 79 then upper_block_79
      else if b = 114 then upper_block_114
      else if b = 117 then upper_block_117
      else if b = 118 then upper_block_118
      else if b = 120 then upper_block_120
      else if b = 121 then upper_block_121
      else if b = 122 then upper_block_122
      else if b = 123 then upper_block_123
      else if b = 124 then upper_block_124
      else if b = 125 then upper_block_125
      else if b = 126 then upper_block_126
      else if b = 127 then upper_block_127
      else if b = 133 then upper_block_133
      else if b = 134 then upper_block_134
      else if b = 147 then upper_block_147
      else if b = 176 then upper_block_176
      else if b = 177 then upper_block_177
      else if b = 178 then upper_block_178
      else if b = 179 then upper_block_179
      else if b = 180 then upper_block_180
      else if b = 665 then upper_block_665
      else if b = 666 then upper_block_666
      else if b = 668 then upper_block_668
      else if b = 669 then upper_block_669
      else if b = 670 then upper_block_670
      else if b = 671 then upper_block_671
      else if b = 685 then upper_block_685
      else if b = 686 then upper_block_686
      else if b = 1004 then upper_block_1004
      else if b = 1021 then upper_block_1021
      else if b = 1040 then upper_block_1040
      else if b = 1041 then upper_block_1041
      else if b = 1043 then upper_block_1043
      else if b = 1046 then upper_block_1046
      else if b = 1075 then upper_block_1075
      else if b = 1123 then upper_block_1123
      else if b = 1465 then upper_block_1465
      else if b = 1956 then upper_block_1956
      else if b = 1957 then upper_block_1957
      else [])"

text \<open>\<^verbatim>\<open>c.upper()\<close> for a single character.\<close>

definition upper :: "int \<Rightarrow> pystr" where
  "upper c = (case map_of (upper_block (c div 64)) c of None \<Rightarrow> [c] | Some u \<Rightarrow> u)"

subsection \<open>Strings\<close>

text \<open>\<^verbatim>\<open>s.strip()\<close>: leading and trailing whitespace removed.\<close>

definition strip :: "pystr \<Rightarrow> pystr" where
  "strip s = rev (dropWhile isspace (rev (dropWhile isspace s)))"

text \<open>
  \<^verbatim>\<open>re.sub(r'\s+', ' ', s)\<close>: scanning from the left, every maximal run of whitespace is
  replaced by one space (U+0020).
\<close>

function collapse_ws :: "pystr \<Rightarrow> pystr" where
  "collapse_ws [] = []"
| "collapse_ws (c # cs) =
     (if isspace c then 32 # collapse_ws (dropWhile isspace cs)
      else c # collapse_ws cs)"
  by pat_completeness auto
termination
  by (relation "measure length") (auto simp: le_imp_less_Suc length_dropWhile_le)

text \<open>
  \<^verbatim>\<open>re.sub(r'([.!?]\s*)([a-z])', lambda m: m.group(1) + m.group(2).upper(), s)\<close>.
  A match starts at a character of \<^verbatim>\<open>[.!?]\<close>, runs over all the whitespace that follows
  (the star is greedy, and giving whitespace back never helps, since \<^verbatim>\<open>[a-z]\<close> is not
  whitespace) and needs a letter of \<^verbatim>\<open>[a-z]\<close> next; the letter is replaced by its upper
  case and the scan goes on after it. Where no match starts the character is kept and the
  scan goes on at the next one.
\<close>

function capitalize_sentences :: "pystr \<Rightarrow> pystr" where
  "capitalize_sentences [] = []"
| "capitalize_sentences (c # cs) =
     (if is_sentence_end c then
        (case dropWhile isspace cs of
           [] \<Rightarrow> c # capitalize_sentences cs
         | d # ds \<Rightarrow>
             if is_az d then c # takeWhile isspace cs @ upper d @ capitalize_sentences ds
             else c # capitalize_sentences cs)
      else c # capitalize_sentences cs)"
  by pat_completeness auto
termination
proof (relation "measure length")
  fix c :: int and cs ds :: pystr and d :: int
  assume "dropWhile isspace cs = d # ds"
  moreover have "length (dropWhile isspace cs) \<le> length cs"
    by (rule length_dropWhile_le)
  ultimately show "(ds, c # cs) \<in> measure length"
    by simp
qed auto

text \<open>
  \<^verbatim>\<open>s.split()\<close>: the maximal runs of non-whitespace characters, in order.
\<close>

function split_ws :: "pystr \<Rightarrow> pystr list" where
  "split_ws [] = []"
| "split_ws (c # cs) =
     (if isspace c then split_ws cs
      else (c # takeWhile (\<lambda>x. \<not> isspace x) cs) # split_ws (dropWhile (\<lambda>x. \<not> isspace x) cs))"
  by pat_completeness auto
termination
  by (relation "measure length") (auto simp: le_imp_less_Suc length_dropWhile_le)

section \<open>The transcript buffer (\<^verbatim>\<open>src/text_buffer.py\<close>)\<close>

text \<open>
  The fields of \<^verbatim>\<open>TextBuffer\<close>. Every method runs under the buffer's lock, so each is one
  atomic step on the record; the lock itself is not modelled.
\<close>

record TextBuffer =
  final_text :: pystr
  partial_text :: pystr
  last_partial_length :: int

definition init_buffer :: TextBuffer where
  "init_buffer = \<lparr>final_text = [], partial_text = [], last_partial_length = 0\<rparr>"

definition clean_text :: "pystr \<Rightarrow> pystr" where
  "clean_text text = (if text = [] then [] else collapse_ws (strip text))"

definition format_text :: "pystr \<Rightarrow> pystr" where
  "format_text text =
     (if text = [] then []
      else
        let formatted = collapse_ws (strip text);
            formatted = (case formatted of [] \<Rightarrow> [] | c # cs \<Rightarrow> upper c @ cs)
        in capitalize_sentences formatted)"

definition add_partial_text :: "pystr \<Rightarrow> TextBuffer \<Rightarrow> TextBuffer" where
  "add_partial_text text b =
     (if text \<noteq> [] then b\<lparr>partial_text := clean_text text\<rparr>
      else b\<lparr>partial_text := []\<rparr>)"

definition add_final_text :: "pystr \<Rightarrow> TextBuffer \<Rightarrow> TextBuffer" where
  "add_final_text text b =
     (if text \<noteq> [] then
        b\<lparr>final_text := final_text b @ clean_text text @ str '' '', partial_text := []\<rparr>
      else b)"

definition get_full_text :: "TextBuffer \<Rightarrow> pystr" where
  "get_full_text b = format_text (strip (final_text b @ partial_text b))"

definition get_final_text_only :: "TextBuffer \<Rightarrow> pystr" where
  "get_final_text_only b = format_text (strip (final_text b))"

definition get_partial_text_only :: "TextBuffer \<Rightarrow> pystr" where
  "get_partial_text_only b = partial_text b"

definition clear :: "TextBuffer \<Rightarrow> TextBuffer" where
  "clear b = b\<lparr>final_text := [], partial_text := [], last_partial_length := 0\<rparr>"

definition get_word_count :: "TextBuffer \<Rightarrow> int" where
  "get_word_count b = int (length (split_ws (final_text b)))"

definition is_empty :: "TextBuffer \<Rightarrow> bool" where
  "is_empty b \<longleftrightarrow> final_text b = [] \<and> partial_text b = []"

text \<open>
  A run of calls on the buffer, for the properties that hold along every sequence of
  \<^verbatim>\<open>add_partial_text\<close> and \<^verbatim>\<open>add_final_text\<close>.
\<close>

datatype buffer_call = AddPartial pystr | AddFinal pystr

fun apply_call :: "buffer_call \<Rightarrow> TextBuffer \<Rightarrow> TextBuffer" where
  "apply_call (AddPartial text) b = add_partial_text text b"
| "apply_call (AddFinal text) b = add_final_text text b"

text \<open>
  The calls of the scenario of \<^verbatim>\<open>test_text_buffer\<close> that the specification lists, from an
  empty buffer: two partial results, then two final ones.
\<close>

definition step1 :: TextBuffer where
  "step1 = add_partial_text (str ''hello'') init_buffer"

definition step2 :: TextBuffer where
  "step2 = add_partial_text (str ''hello world'') step1"

definition step3 :: TextBuffer where
  "step3 = add_final_text (str ''hello world'') step2"

definition step4 :: TextBuffer where
  "step4 = add_final_text (str ''this is a test. hello world'') step3"

section \<open>The recognition engine (\<^verbatim>\<open>src/vosk_engine.py\<close>)\<close>

text \<open>
  The Kaldi recogniser is a library object outside the repository. A value of type
  \<open>KaldiRecognizer\<close> gives the replies of the recogniser in the state it is in: each reply is
  either an exception (\<open>Inl\<close>) or a value (\<open>Inr\<close>). \<open>Result\<close> and \<open>PartialResult\<close> reply
  with the JSON object that \<^verbatim>\<open>json.loads\<close> reads from the returned string (an exception of
  \<^verbatim>\<open>json.loads\<close> counts as an exception of the call); a JSON object is an association
  list of its entries, keys and values being strings.
\<close>

datatype exception = Exception string

type_synonym frame = "8 word list"

type_synonym json_object = "(pystr \<times> pystr) list"

text \<open>\<^verbatim>\<open>obj.get(key, default)\<close>\<close>

definition json_get :: "json_object \<Rightarrow> pystr \<Rightarrow> pystr \<Rightarrow> pystr" where
  "json_get obj key dflt = (case map_of obj key of None \<Rightarrow> dflt | Some v \<Rightarrow> v)"

record KaldiRecognizer =
  AcceptWaveform :: "frame \<Rightarrow> exception + bool"
  Result :: "exception + json_object"
  PartialResult :: "exception + json_object"

record VoskEngine =
  is_active :: bool
  recognizer :: "KaldiRecognizer option"

text \<open>The dictionary with the keys \<^verbatim>\<open>'partial'\<close> and \<^verbatim>\<open>'final'\<close> that \<^verbatim>\<open>process_audio\<close> returns.\<close>

record results =
  partial :: "pystr option"
  final :: "pystr option"

definition no_results :: results where
  "no_results = \<lparr>partial = None, final = None\<rparr>"

text \<open>The body of the \<^verbatim>\<open>try\<close> block of \<^verbatim>\<open>process_audio\<close>: an exception leaves it at once.\<close>

definition feed_recognizer :: "KaldiRecognizer \<Rightarrow> frame \<Rightarrow> exception + results" where
  "feed_recognizer r audio_data =
     (case AcceptWaveform r audio_data of
        Inl e \<Rightarrow> Inl e
      | Inr True \<Rightarrow>
          (case Result r of
             Inl e \<Rightarrow> Inl e
           | Inr result \<Rightarrow> Inr (no_results\<lparr>final := Some (strip (json_get result (str ''text'') []))\<rparr>))
      | Inr False \<Rightarrow>
          (case PartialResult r of
             Inl e \<Rightarrow> Inl e
           | Inr partial_json \<Rightarrow>
               Inr (no_results\<lparr>partial := Some (strip (json_get partial_json (str ''partial'') []))\<rparr>)))"

text \<open>
  \<^verbatim>\<open>process_audio\<close>. The outcome of the call is \<open>Inl\<close> for an exception that reaches the
  caller and \<open>Inr\<close> for a returned dictionary. The handler \<^verbatim>\<open>except Exception\<close> prints the
  error and goes on to \<^verbatim>\<open>return results\<close>, which still holds the two \<^verbatim>\<open>None\<close> entries.
\<close>

definition process_audio :: "VoskEngine \<Rightarrow> frame \<Rightarrow> exception + results" where
  "process_audio eng audio_data =
     (if \<not> is_active eng \<or> recognizer eng = None then Inr no_results
      else
        (case recognizer eng of
           None \<Rightarrow> Inr no_results
         | Some r \<Rightarrow>
             (case feed_recognizer r audio_data of
                Inl e \<Rightarrow> Inr no_results
              | Inr res \<Rightarrow> Inr res)))"

definition get_final_result :: "VoskEngine \<Rightarrow> pystr" where
  "get_final_result eng =
     (if \<not> is_active eng \<or> recognizer eng = None then []
      else
        (case recognizer eng of
           None \<Rightarrow> []
         | Some r \<Rightarrow>
             (case Result r of
                Inl e \<Rightarrow> []
              | Inr result \<Rightarrow> strip (json_get result (str ''text'') []))))"

text \<open>
  Two engines for the examples: one that was reset, and a started one whose recogniser
  answers the next chunk with a final result, and a recogniser whose
  \<^verbatim>\<open>Result()\<close> raises.
\<close>

definition idle_engine :: VoskEngine where
  "idle_engine = \<lparr>is_active = False, recognizer = None\<rparr>"

definition final_recognizer :: KaldiRecognizer where
  "final_recognizer =
     \<lparr>AcceptWaveform = (\<lambda>audio_data. Inr True),
      Result = Inr [(str ''text'', str '' hello  world '')],
      PartialResult = Inr [(str ''partial'', [])]\<rparr>"

definition failing_recognizer :: KaldiRecognizer where
  "failing_recognizer =
     \<lparr>AcceptWaveform = (\<lambda>audio_data. Inr True),
      Result = Inl (Exception ''bad frame''),
      PartialResult = Inr [(str ''partial'', [])]\<rparr>"

definition started_engine :: VoskEngine where
  "started_engine = \<lparr>is_active = True, recognizer = Some final_recognizer\<rparr>"

section \<open>The frame queue (\<^verbatim>\<open>queue.Queue(maxsize=100)\<close>)\<close>

text \<open>
  A \<^verbatim>\<open>queue.Queue\<close> holds its items oldest first; with \<open>maxsize > 0\<close> it is full when it
  holds \<open>maxsize\<close> items. The model is the queue as its one producer sees it while no
  consumer takes an item during the call: \<^verbatim>\<open>put(item, timeout=0.1)\<close> on a full queue gives
  up with \<open>Full\<close> after the timeout, and \<^verbatim>\<open>get_nowait()\<close> on an empty one raises \<open>Empty\<close>.
  No call waits without a bound; the length of the waits is not modelled.
\<close>

datatype queue_error = Full | Empty

record 'a Queue =
  maxsize :: nat
  items :: "'a list"

definition new_queue :: "nat \<Rightarrow> 'a Queue" where
  "new_queue n = \<lparr>maxsize = n, items = []\<rparr>"

definition is_full :: "'a Queue \<Rightarrow> bool" where
  "is_full q \<longleftrightarrow> 0 < maxsize q \<and> maxsize q \<le> length (items q)"

definition put :: "'a \<Rightarrow> 'a Queue \<Rightarrow> queue_error + 'a Queue" where
  "put x q = (if is_full q then Inl Full else Inr (q\<lparr>items := items q @ [x]\<rparr>))"

definition get_nowait :: "'a Queue \<Rightarrow> queue_error + ('a \<times> 'a Queue)" where
  "get_nowait q = (case items q of [] \<Rightarrow> Inl Empty | x # xs \<Rightarrow> Inr (x, q\<lparr>items := xs\<rparr>))"

text \<open>
  The queueing step of \<^verbatim>\<open>AudioCapture._recording_worker\<close> (\<^verbatim>\<open>src/audio_capture.py\<close>):
  \<^verbatim>\<open>put\<close>; on \<open>Full\<close> drop the oldest chunk and \<^verbatim>\<open>put\<close> again; the bare \<^verbatim>\<open>except: pass\<close>
  leaves the queue as the failing call found it.
\<close>

definition recording_worker_put :: "'a \<Rightarrow> 'a Queue \<Rightarrow> 'a Queue" where
  "recording_worker_put data q =
     (case put data q of
        Inr q' \<Rightarrow> q'
      | Inl err \<Rightarrow>
          (case get_nowait q of
             Inl err' \<Rightarrow> q
           | Inr (oldest, q1) \<Rightarrow>
               (case put data q1 of Inr q2 \<Rightarrow> q2 | Inl err' \<Rightarrow> q1)))"

text \<open>
  The same step in \<^verbatim>\<open>LarynxApp._audio_capture_worker\<close> (\<^verbatim>\<open>main.py\<close>), which runs
  only \<^verbatim>\<open>if chunk:\<close>, that is for a chunk that is neither \<^verbatim>\<open>None\<close> nor empty.
\<close>

definition audio_capture_worker_put :: "frame option \<Rightarrow> frame Queue \<Rightarrow> frame Queue" where
  "audio_capture_worker_put chunk q =
     (case chunk of
        None \<Rightarrow> q
      | Some c \<Rightarrow>
          if c = [] then q
          else
            (case put c q of
               Inr q' \<Rightarrow> q'
             | Inl err \<Rightarrow>
                 (case get_nowait q of
                    Inl err' \<Rightarrow> q
                  | Inr (oldest, q1) \<Rightarrow>
                      (case put c q1 of Inr q2 \<Rightarrow> q2 | Inl err' \<Rightarrow> q1))))"

text \<open>A full frame queue for the examples: the chunks \<open>[0]\<close> to \<open>[99]\<close>, oldest first.\<close>

definition full_frame_queue :: "frame Queue" where
  "full_frame_queue = \<lparr>maxsize = 100, items = map (\<lambda>n. [of_nat n]) [0..<100]\<rparr>"

section \<open>The application (\<^verbatim>\<open>main.py\<close>)\<close>

text \<open>
  The state of \<^verbatim>\<open>LarynxApp\<close> that \<^verbatim>\<open>stop_recording\<close> reads and writes, as the calling
  thread steps through it; the worker threads, the joins on them and the window are not
  modelled. An update for the display is the dictionary built by \<^verbatim>\<open>_send_text_update\<close>.
\<close>

record text_update =
  update_type :: pystr
  update_text :: pystr
  word_count :: int

record AudioCapture =
  is_recording_flag :: bool

record LarynxApp =
  recording :: bool
  audio_capture :: AudioCapture
  vosk_engine :: VoskEngine
  text_buffer :: TextBuffer
  text_queue :: "text_update Queue"

definition AudioCapture_stop_recording :: "AudioCapture \<Rightarrow> AudioCapture" where
  "AudioCapture_stop_recording a =
     (if \<not> is_recording_flag a then a else a\<lparr>is_recording_flag := False\<rparr>)"

definition send_text_update :: "pystr \<Rightarrow> pystr \<Rightarrow> LarynxApp \<Rightarrow> LarynxApp" where
  "send_text_update utype text app =
     (let update = \<lparr>update_type = utype, update_text = text,
                     word_count = get_word_count (text_buffer app)\<rparr>
      in case put update (text_queue app) of
           Inr q \<Rightarrow> app\<lparr>text_queue := q\<rparr>
         | Inl err \<Rightarrow> app)"

definition finalize_transcription :: "LarynxApp \<Rightarrow> LarynxApp" where
  "finalize_transcription app =
     (let final_result = get_final_result (vosk_engine app)
      in if final_result \<noteq> [] then
           let app1 = app\<lparr>text_buffer := add_final_text final_result (text_buffer app)\<rparr>
           in send_text_update (str ''final'') (get_full_text (text_buffer app1)) app1
         else app)"

definition stop_recording :: "LarynxApp \<Rightarrow> LarynxApp" where
  "stop_recording app =
     (if \<not> recording app then app
      else
        let app1 = app\<lparr>recording := False\<rparr>;
            app2 = app1\<lparr>audio_capture := AudioCapture_stop_recording (audio_capture app1)\<rparr>
        in finalize_transcription app2)"

text \<open>
  An application that is recording, with the partial text \<^verbatim>\<open>hello wor\<close> on display and a
  recogniser that still holds the final result \<^verbatim>\<open>hello  world\<close>.
\<close>

definition recording_app :: LarynxApp where
  "recording_app =
     \<lparr>recording = True,
      audio_capture = \<lparr>is_recording_flag = True\<rparr>,
      vosk_engine = started_engine,
      text_buffer = add_partial_text (str ''hello wor'') (add_final_text (str ''good morning.'') init_buffer),
      text_queue = new_queue 50\<rparr>"

section \<open>Auxiliary notions for the proofs\<close>

text \<open>
  \<open>tidy_from b s\<close>: every whitespace character of \<open>s\<close> is a single space that stands
  between two other characters; with \<open>b\<close> the string may not be empty nor begin with a
  space. These are the strings that whitespace normalisation leaves unchanged.
\<close>

fun tidy_from :: "bool \<Rightarrow> pystr \<Rightarrow> bool" where
  "tidy_from b [] = (\<not> b)"
| "tidy_from b (c # cs) =
     (if isspace c then \<not> b \<and> c = 32 \<and> tidy_from True cs else tidy_from False cs)"

text \<open>
  \<open>upcased a p\<close>: the string \<open>p\<close> is the character \<open>a\<close>, as it is or in upper case.
  \<open>az_upcased a b\<close>: the character \<open>b\<close> is \<open>a\<close>, or \<open>a\<close> is a letter of \<^verbatim>\<open>[a-z]\<close> and \<open>b\<close>
  its upper case.
\<close>

definition upcased :: "int \<Rightarrow> pystr \<Rightarrow> bool" where
  "upcased a p \<longleftrightarrow> p = [a] \<or> p = upper a"

definition az_upcased :: "int \<Rightarrow> int \<Rightarrow> bool" where
  "az_upcased a b \<longleftrightarrow> b = a \<or> (is_az a \<and> upper a = [b])"

text \<open>
  What the proofs need of an entry \<open>(k, v)\<close> of the case tables: the upper case \<open>v\<close> is
  not empty, holds no whitespace and no letter of \<^verbatim>\<open>[a-z]\<close>, its first character is its
  own upper case, and \<open>k\<close> is not whitespace.
\<close>

definition upper_entry_ok :: "int \<Rightarrow> pystr \<Rightarrow> bool" where
  "upper_entry_ok k v \<longleftrightarrow>
     v \<noteq> [] \<and> (\<forall>x\<in>set v. \<not> isspace x \<and> \<not> is_az x) \<and> \<not> isspace k \<and>
     upper (hd v) = [hd v]"

fun block_ok :: "(int \<times> pystr) list \<Rightarrow> bool" where
  "block_ok [] = True"
| "block_ok ((k, v) # es) = (upper_entry_ok k v \<and> block_ok es)"

section \<open>Facts about the string primitives\<close>

subsection \<open>Character classes\<close>

lemma is_az_not_space: "is_az c \<Longrightarrow> \<not> isspace c"
  unfolding is_az_def isspace_def by arith

lemma sentence_end_not_space: "is_sentence_end c \<Longrightarrow> \<not> isspace c"
  unfolding is_sentence_end_def isspace_def by arith

lemma az_not_sentence_end: "is_az c \<Longrightarrow> \<not> is_sentence_end c"
  unfolding is_az_def is_sentence_end_def by arith

lemma az_upper_classes:
  "is_az d \<Longrightarrow> \<not> isspace (d - 32) \<and> \<not> is_az (d - 32) \<and> \<not> is_sentence_end (d - 32)"
  unfolding is_az_def isspace_def is_sentence_end_def by arith

lemma isspace_space [simp]: "isspace 32"
  by (simp add: isspace_def)

lemma str_space [simp]: "str '' '' = [32]"
  by (simp add: str_def)

subsection \<open>The case tables\<close>

lemma block_ok_entry: "block_ok es \<Longrightarrow> (k, v) \<in> set es \<Longrightarrow> upper_entry_ok k v"
  by (induction es rule: block_ok.induct) auto

lemma upper_block_1_ok: "block_ok upper_block_1"
  by code_simp

lemma upper_block_2_ok: "block_ok upper_block_2"
  by code_simp

lemma upper_block_3_ok: "block_ok upper_block_3"
  by code_simp

lemma upper_block_4_ok: "block_ok upper_block_4"
  by code_simp

lemma upper_block_5_ok: "block_ok upper_block_5"
  by code_simp

lemma upper_block_6_ok: "block_ok upper_block_6"
  by code_simp

lemma upper_block_7_ok: "block_ok upper_block_7"
  by code_simp

lemma upper_block_8_ok: "block_ok upper_block_8"
  by code_simp

lemma upper_block_9_ok: "block_ok upper_block_9"
  by code_simp

lemma upper_block_10_ok: "block_ok upper_block_10"
  by code_simp

lemma upper_block_13_ok: "block_ok upper_block_13"
  by code_simp

lemma upper_block_14_ok: "block_ok upper_block_14"
  by code_simp

lemma upper_block_15_ok: "block_ok upper_block_15"
  by code_simp

lemma upper_block_16_ok: "block_ok upper_block_16"
  by code_simp

lemma upper_block_17_ok: "block_ok upper_block_17"
  by code_simp

lemma upper_block_18_ok: "block_ok upper_block_18"
  by code_simp

lemma upper_block_19_ok: "block_ok upper_block_19"
  by code_simp

lemma upper_block_20_ok: "block_ok upper_block_20"
  by code_simp

lemma upper_block_21_ok: "block_ok upper_block_21"
  by code_simp

lemma upper_block_22_ok: "block_ok upper_block_22"
  by code_simp

lemma upper_block_67_ok: "block_ok upper_block_67"
  by code_simp

lemma upper_block_79_ok: "block_ok upper_block_79"
  by code_simp

lemma upper_block_114_ok: "block_ok upper_block_114"
  by code_simp

lemma upper_block_117_ok: "block_ok upper_block_117"
  by code_simp

lemma upper_block_118_ok: "block_ok upper_block_118"
  by code_simp

lemma upper_block_120_ok: "block_ok upper_block_120"
  by code_simp

lemma upper_block_121_ok: "block_ok upper_block_121"
  by code_simp

lemma upper_block_122_ok: "block_ok upper_block_122"
  by code_simp

lemma upper_block_123_ok: "block_ok upper_block_123"
  by code_simp

lemma upper_block_124_ok: "block_ok upper_block_124"
  by code_simp

lemma upper_block_125_ok: "block_ok upper_block_125"
  by code_simp

lemma upper_block_126_ok: "block_ok upper_block_126"
  by code_simp

lemma upper_block_127_ok: "block_ok upper_block_127"
  by code_simp

lemma upper_block_133_ok: "block_ok upper_block_133"
  by code_simp

lemma upper_block_134_ok: "block_ok upper_block_134"
  by code_simp

lemma upper_block_147_ok: "block_ok upper_block_147"
  by code_simp

lemma upper_block_176_ok: "block_ok upper_block_176"
  by code_simp

lemma upper_block_177_ok: "block_ok upper_block_177"
  by code_simp

lemma upper_block_178_ok: "block_ok upper_block_178"
  by code_simp

lemma upper_block_179_ok: "block_ok upper_block_179"
  by code_simp

lemma upper_block_180_ok: "block_ok upper_block_180"
  by code_simp

lemma upper_block_665_ok: "block_ok upper_block_665"
  by code_simp

lemma upper_block_666_ok: "block_ok upper_block_666"
  by code_simp

lemma upper_block_668_ok: "block_ok upper_block_668"
  by code_simp

lemma upper_block_669_ok: "block_ok upper_block_669"
  by code_simp

lemma upper_block_670_ok: "block_ok upper_block_670"
  by code_simp

lemma upper_block_671_ok: "block_ok upper_block_671"
  by code_simp

lemma upper_block_685_ok: "block_ok upper_block_685"
  by code_simp

lemma upper_block_686_ok: "block_ok upper_block_686"
  by code_simp

lemma upper_block_1004_ok: "block_ok upper_block_1004"
  by code_simp

lemma upper_block_1021_ok: "block_ok upper_block_1021"
  by code_simp

lemma upper_block_1040_ok: "block_ok upper_block_1040"
  by code_simp

lemma upper_block_1041_ok: "block_ok upper_block_1041"
  by code_simp

lemma upper_block_1043_ok: "block_ok upper_block_1043"
  by code_simp

lemma upper_block_1046_ok: "block_ok upper_block_1046"
  by code_simp

lemma upper_block_1075_ok: "block_ok upper_block_1075"
  by code_simp

lemma upper_block_1123_ok: "block_ok upper_block_1123"
  by code_simp

lemma upper_block_1465_ok: "block_ok upper_block_1465"
  by code_simp

lemma upper_block_1956_ok: "block_ok upper_block_1956"
  by code_simp

lemma upper_block_1957_ok: "block_ok upper_block_1957"
  by code_simp

lemmas upper_blocks_ok =
    upper_block_1_ok upper_block_2_ok upper_block_3_ok upper_block_4_ok upper_block_5_ok
    upper_block_6_ok upper_block_7_ok upper_block_8_ok upper_block_9_ok upper_block_10_ok
    upper_block_13_ok upper_block_14_ok upper_block_15_ok upper_block_16_ok upper_block_17_ok
    upper_block_18_ok upper_block_19_ok upper_block_20_ok upper_block_21_ok upper_block_22_ok
    upper_block_67_ok upper_block_79_ok upper_block_114_ok upper_block_117_ok
    upper_block_118_ok upper_block_120_ok upper_block_121_ok upper_block_122_ok
    upper_block_123_ok upper_block_124_ok upper_block_125_ok upper_block_126_ok
    upper_block_127_ok upper_block_133_ok upper_block_134_ok upper_block_147_ok
    upper_block_176_ok upper_block_177_ok upper_block_178_ok upper_block_179_ok
    upper_block_180_ok upper_block_665_ok upper_block_666_ok upper_block_668_ok
    upper_block_669_ok upper_block_670_ok upper_block_671_ok upper_block_685_ok
    upper_block_686_ok upper_block_1004_ok upper_block_1021_ok upper_block_1040_ok
    upper_block_1041_ok upper_block_1043_ok upper_block_1046_ok upper_block_1075_ok
    upper_block_1123_ok upper_block_1465_ok upper_block_1956_ok upper_block_1957_ok

lemma upper_block_ok: "block_ok (upper_block b)"
  by (simp add: upper_block_def upper_blocks_ok)

lemma upper_cases: "upper c = [c] \<or> upper_entry_ok c (upper c)"
proof (cases "map_of (upper_block (c div 64)) c")
  case None
  then show ?thesis by (simp add: upper_def)
next
  case (Some u)
  then have "(c, u) \<in> set (upper_block (c div 64))" by (rule map_of_SomeD)
  with upper_block_ok have "upper_entry_ok c u" by (rule block_ok_entry)
  moreover from Some have "upper c = u" by (simp add: upper_def)
  ultimately show ?thesis by simp
qed

lemma upper_az: "is_az c \<Longrightarrow> upper c = [c - 32]"
proof -
  assume "is_az c"
  then have "c = 97 \<or> c = 98 \<or> c = 99 \<or> c = 100 \<or> c = 101 \<or> c = 102 \<or> c = 103 \<or> c = 104 \<or>
      c = 105 \<or> c = 106 \<or> c = 107 \<or> c = 108 \<or> c = 109 \<or> c = 110 \<or> c = 111 \<or> c = 112 \<or>
      c = 113 \<or> c = 114 \<or> c = 115 \<or> c = 116 \<or> c = 117 \<or> c = 118 \<or> c = 119 \<or> c = 120 \<or>
      c = 121 \<or> c = 122"
    unfolding is_az_def by arith
  then show ?thesis
    by (elim disjE) (simp_all add: upper_def upper_block_def upper_block_1_def)
qed

lemma upper_nonempty: "upper c \<noteq> []"
  using upper_cases [of c] by (auto simp: upper_entry_ok_def)

lemma upper_space: "isspace c \<Longrightarrow> upper c = [c]"
  using upper_cases [of c] by (auto simp: upper_entry_ok_def)

lemma upper_no_space: "\<not> isspace c \<Longrightarrow> x \<in> set (upper c) \<Longrightarrow> \<not> isspace x"
  using upper_cases [of c] by (auto simp: upper_entry_ok_def)

lemma upper_no_az: "x \<in> set (upper c) \<Longrightarrow> \<not> is_az x"
proof -
  assume x: "x \<in> set (upper c)"
  from upper_cases [of c] show ?thesis
  proof
    assume u: "upper c = [c]"
    with x have xc: "x = c" by simp
    show ?thesis
    proof
      assume "is_az x"
      with xc have "upper c = [c - 32]" by (simp add: upper_az)
      with u show False by simp
    qed
  next
    assume "upper_entry_ok c (upper c)"
    with x show ?thesis by (simp add: upper_entry_ok_def)
  qed
qed

lemma upper_hd_fixed: "upper (hd (upper c)) = [hd (upper c)]"
proof -
  from upper_cases [of c] show ?thesis
  proof
    assume u: "upper c = [c]"
    then have "hd (upper c) = c" by simp
    with u show ?thesis by simp
  next
    assume "upper_entry_ok c (upper c)"
    then show ?thesis by (simp add: upper_entry_ok_def)
  qed
qed

subsection \<open>Strings that whitespace normalisation leaves unchanged\<close>

lemma tidy_from_True_head: "tidy_from True s \<Longrightarrow> dropWhile isspace s = s"
  by (cases s) (auto split: if_splits)

lemma tidy_from_last: "tidy_from b s \<Longrightarrow> s \<noteq> [] \<Longrightarrow> \<not> isspace (last s)"
  by (induction s arbitrary: b) (auto split: if_splits)

lemma tidy_from_collapse: "tidy_from b s \<Longrightarrow> collapse_ws s = s"
proof (induction s arbitrary: b)
  case Nil
  then show ?case by simp
next
  case (Cons c cs)
  show ?case
  proof (cases "isspace c")
    case True
    with Cons.prems have t: "tidy_from True cs" and c: "c = 32" by simp_all
    from t have "dropWhile isspace cs = cs" by (rule tidy_from_True_head)
    moreover from t have "collapse_ws cs = cs" by (rule Cons.IH)
    ultimately show ?thesis using True c by simp
  next
    case False
    with Cons.prems have "tidy_from False cs" by simp
    then have "collapse_ws cs = cs" by (rule Cons.IH)
    with False show ?thesis by simp
  qed
qed

lemma tidy_from_strip: 
  assumes "tidy_from True s" shows "strip s = s"
proof -
  from assms have ne: "s \<noteq> []" by (cases s) auto
  from assms have h: "dropWhile isspace s = s" by (rule tidy_from_True_head)
  from assms ne have "\<not> isspace (last s)" by (rule tidy_from_last)
  with ne have "\<not> isspace (hd (rev s))" by (simp add: hd_rev)
  with ne have "dropWhile isspace (rev s) = rev s" by (cases "rev s") auto
  with h show ?thesis by (simp add: strip_def)
qed

lemma collapse_tidy_from:
  "s \<noteq> [] \<Longrightarrow> \<not> isspace (last s) \<Longrightarrow> (b \<Longrightarrow> \<not> isspace (hd s)) \<Longrightarrow> tidy_from b (collapse_ws s)"
proof (induction s arbitrary: b rule: collapse_ws.induct)
  case 1
  then show ?case by simp
next
  case (2 c cs)
  show ?case
  proof (cases "isspace c")
    case True
    with "2.prems" have nb: "\<not> b" by auto
    let ?r = "dropWhile isspace cs"
    from True "2.prems" have cs: "cs \<noteq> []" by auto
    with "2.prems" have l: "\<not> isspace (last cs)" by simp
    with cs have "last cs \<in> set cs" "\<not> isspace (last cs)" by simp_all
    then have r: "?r \<noteq> []" by auto
    then have lr: "last ?r = last cs"
      by (metis last_appendR takeWhile_dropWhile_id)
    have hr: "\<not> isspace (hd ?r)" using r by (simp add: hd_dropWhile)
    have "tidy_from True (collapse_ws ?r)"
      using "2.IH"(1) [OF True r] l lr hr by simp
    with True nb show ?thesis by simp
  next
    case False
    show ?thesis
    proof (cases "cs = []")
      case True
      with False show ?thesis by simp
    next
      case ne: False
      with "2.prems" have "\<not> isspace (last cs)" by simp
      with ne have "tidy_from False (collapse_ws cs)"
        using "2.IH"(2) [OF False ne] by simp
      with False show ?thesis by simp
    qed
  qed
qed

lemma strip_ends:
  assumes ne: "strip s \<noteq> []"
  shows "\<not> isspace (hd (strip s)) \<and> \<not> isspace (last (strip s))"
proof -
  define t where "t = dropWhile isspace s"
  define d where "d = dropWhile isspace (rev t)"
  have st: "strip s = rev d" by (simp add: strip_def d_def t_def)
  with ne have dne: "d \<noteq> []" by simp
  then have "\<not> isspace (hd d)" unfolding d_def by (rule hd_dropWhile)
  with dne have l: "\<not> isspace (last (strip s))" by (simp add: st last_rev)
  have "rev t = takeWhile isspace (rev t) @ d" by (simp add: d_def)
  then have "rev (rev t) = rev (takeWhile isspace (rev t) @ d)" by (rule arg_cong)
  then have t: "t = rev d @ rev (takeWhile isspace (rev t))" by (simp only: rev_rev_ident rev_append)
  from dne have rd: "rev d \<noteq> []" by simp
  from t rd have tne: "t \<noteq> []" by (metis append_is_Nil_conv)
  from t rd have ht: "hd t = hd (rev d)" by (metis hd_append2)
  from tne have "\<not> isspace (hd t)" unfolding t_def by (rule hd_dropWhile)
  with ht have "\<not> isspace (hd (strip s))" by (simp add: st)
  with l show ?thesis by simp
qed

lemma tidy_collapse_strip:
  "strip s \<noteq> [] \<Longrightarrow> tidy_from True (collapse_ws (strip s))"
  using strip_ends [of s] by (simp add: collapse_tidy_from)

lemma tidy_from_word:
  "p \<noteq> [] \<Longrightarrow> \<forall>x\<in>set p. \<not> isspace x \<Longrightarrow> tidy_from b (p @ r) = tidy_from False r"
proof (induction p arbitrary: b)
  case Nil
  then show ?case by simp
next
  case (Cons a p)
  show ?case
  proof (cases "p = []")
    case True
    with Cons.prems show ?thesis by simp
  next
    case False
    with Cons.prems have "tidy_from False (p @ r) = tidy_from False r"
      by (intro Cons.IH) simp_all
    with Cons.prems show ?thesis by simp
  qed
qed

subsection \<open>Capitalisation after a sentence end\<close>

lemma capitalize_other:
  "\<not> is_sentence_end c \<Longrightarrow> capitalize_sentences (c # cs) = c # capitalize_sentences cs"
  by simp

lemma capitalize_end_Nil:
  "is_sentence_end c \<Longrightarrow> dropWhile isspace cs = [] \<Longrightarrow>
   capitalize_sentences (c # cs) = c # capitalize_sentences cs"
  by (simp del: dropWhile_eq_Nil_conv)

lemma capitalize_end_other:
  "is_sentence_end c \<Longrightarrow> dropWhile isspace cs = d # ds \<Longrightarrow> \<not> is_az d \<Longrightarrow>
   capitalize_sentences (c # cs) = c # capitalize_sentences cs"
  by simp

lemma capitalize_end_az:
  "is_sentence_end c \<Longrightarrow> dropWhile isspace cs = d # ds \<Longrightarrow> is_az d \<Longrightarrow>
   capitalize_sentences (c # cs) =
     c # takeWhile isspace cs @ (d - 32) # capitalize_sentences ds"
  by (simp add: upper_az)

declare capitalize_sentences.simps(2) [simp del]

lemma az_upcased_refl [simp]: "az_upcased a a"
  by (simp add: az_upcased_def)

lemma az_upcased_az: "is_az a \<Longrightarrow> az_upcased a (a - 32)"
  by (simp add: az_upcased_def upper_az)

lemma az_upcased_cases: "az_upcased a b \<Longrightarrow> b = a \<or> (is_az a \<and> b = a - 32)"
  by (auto simp: az_upcased_def upper_az)

lemma az_upcased_space: "az_upcased a b \<Longrightarrow> (isspace b \<longleftrightarrow> isspace a) \<and> (isspace a \<longrightarrow> b = a)"
proof -
  assume "az_upcased a b"
  then have "b = a \<or> (is_az a \<and> b = a - 32)" by (rule az_upcased_cases)
  then show ?thesis
  proof
    assume "b = a"
    then show ?thesis by simp
  next
    assume h: "is_az a \<and> b = a - 32"
    then have "\<not> isspace a" by (simp add: is_az_not_space)
    moreover from h have "\<not> isspace b" using az_upper_classes [of a] by simp
    ultimately show ?thesis by simp
  qed
qed

lemma az_upcased_tidy: "list_all2 az_upcased s t \<Longrightarrow> tidy_from b t = tidy_from b s"
proof (induction s t arbitrary: b rule: list_all2_induct)
  case Nil
  show ?case by simp
next
  case (Cons x xs y ys)
  from Cons.hyps(1) have sp: "isspace y = isspace x" and eq: "isspace x \<longrightarrow> y = x"
    using az_upcased_space [of x y] by simp_all
  show ?case
  proof (cases "isspace x")
    case True
    with eq have "y = x" by simp
    then show ?thesis by (simp add: Cons.IH)
  next
    case False
    with sp show ?thesis by (simp add: Cons.IH)
  qed
qed

lemma az_upcased_no_az:
  "list_all2 az_upcased p q \<Longrightarrow> \<forall>x\<in>set p. \<not> is_az x \<Longrightarrow> q = p"
proof (induction p q rule: list_all2_induct)
  case Nil
  show ?case by simp
next
  case (Cons x xs y ys)
  from Cons.prems have "\<not> is_az x" by simp
  with Cons.hyps(1) have "y = x" using az_upcased_cases [of x y] by simp
  moreover from Cons.prems have "ys = xs" by (intro Cons.IH) simp
  ultimately show ?case by simp
qed

lemma capitalize_hd: "\<exists>r. capitalize_sentences (d # ds) = d # r"
  by (simp add: capitalize_sentences.simps(2) split: list.split)

lemma capitalize_az_upcased: "list_all2 az_upcased s (capitalize_sentences s)"
proof (induction s rule: capitalize_sentences.induct)
  case 1
  then show ?case by simp
next
  case (2 c cs)
  show ?case
  proof (cases "is_sentence_end c")
    case False
    with 2 show ?thesis by (simp add: capitalize_other)
  next
    case se: True
    show ?thesis
    proof (cases "dropWhile isspace cs")
      case Nil
      have "list_all2 az_upcased cs (capitalize_sentences cs)"
        using "2.IH"(1) [OF se Nil] .
      then show ?thesis by (simp add: capitalize_end_Nil [OF se Nil])
    next
      case (Cons d ds)
      show ?thesis
      proof (cases "is_az d")
        case False
        have "list_all2 az_upcased cs (capitalize_sentences cs)"
          using "2.IH"(3) [OF se Cons False] .
        then show ?thesis by (simp add: capitalize_end_other [OF se Cons False])
      next
        case True
        have ih: "list_all2 az_upcased ds (capitalize_sentences ds)"
          using "2.IH"(2) [OF se Cons True] .
        have "takeWhile isspace cs @ dropWhile isspace cs = cs"
          by (rule takeWhile_dropWhile_id)
        then have cs: "cs = takeWhile isspace cs @ d # ds"
          by (simp only: Cons)
        have "list_all2 az_upcased (takeWhile isspace cs @ d # ds)
           (takeWhile isspace cs @ (d - 32) # capitalize_sentences ds)"
          using ih True
          by (intro list_all2_appendI) (simp_all add: list_all2_refl az_upcased_az)
        with cs have "list_all2 az_upcased cs
            (takeWhile isspace cs @ (d - 32) # capitalize_sentences ds)"
          by (simp only:)
        then show ?thesis by (simp add: capitalize_end_az [OF se Cons True])
      qed
    qed
  qed
qed

lemma capitalize_ws_prefix:
  "\<forall>x\<in>set ws. isspace x \<Longrightarrow> capitalize_sentences (ws @ s) = ws @ capitalize_sentences s"
proof (induction ws)
  case Nil
  then show ?case by simp
next
  case (Cons a ws)
  then have "\<not> is_sentence_end a" using sentence_end_not_space by auto
  with Cons show ?case by (simp add: capitalize_other)
qed

lemma dropWhile_capitalize:
  "dropWhile isspace (capitalize_sentences cs) = capitalize_sentences (dropWhile isspace cs)"
proof -
  define w where "w = takeWhile isspace cs"
  define d where "d = dropWhile isspace cs"
  have w: "\<forall>x\<in>set w. isspace x" unfolding w_def by (auto dest: set_takeWhileD)
  have cs: "cs = w @ d" by (simp add: w_def d_def)
  have hd: "dropWhile isspace (capitalize_sentences d) = capitalize_sentences d"
  proof (cases d)
    case Nil
    then show ?thesis by simp
  next
    case (Cons e es)
    have "d \<noteq> []" using Cons by simp
    then have "\<not> isspace (hd d)" unfolding d_def by (rule hd_dropWhile)
    then have e: "\<not> isspace e" using Cons by simp
    obtain r where "capitalize_sentences (e # es) = e # r"
      using capitalize_hd by blast
    with e Cons show ?thesis by simp
  qed
  have "capitalize_sentences cs = w @ capitalize_sentences d"
    unfolding cs using w by (rule capitalize_ws_prefix)
  then have "dropWhile isspace (capitalize_sentences cs)
      = dropWhile isspace (capitalize_sentences d)"
    using w by (simp add: dropWhile_append)
  with hd show ?thesis by (simp add: d_def)
qed

lemma capitalize_idem: "capitalize_sentences (capitalize_sentences s) = capitalize_sentences s"
proof (induction s rule: capitalize_sentences.induct)
  case 1
  then show ?case by simp
next
  case (2 c cs)
  show ?case
  proof (cases "is_sentence_end c")
    case False
    with 2 show ?thesis by (simp add: capitalize_other)
  next
    case se: True
    show ?thesis
    proof (cases "dropWhile isspace cs")
      case Nil
      have ih: "capitalize_sentences (capitalize_sentences cs) = capitalize_sentences cs"
        using "2.IH"(1) [OF se Nil] .
      have "dropWhile isspace (capitalize_sentences cs) = capitalize_sentences []"
        by (simp only: dropWhile_capitalize Nil)
      then have dn: "dropWhile isspace (capitalize_sentences cs) = []"
        by (simp only: capitalize_sentences.simps(1))
      show ?thesis
        by (simp only: capitalize_end_Nil [OF se Nil] capitalize_end_Nil [OF se dn] ih)
    next
      case (Cons d ds)
      show ?thesis
      proof (cases "is_az d")
        case False
        have ih: "capitalize_sentences (capitalize_sentences cs) = capitalize_sentences cs"
          using "2.IH"(3) [OF se Cons False] .
        obtain r where r: "capitalize_sentences (d # ds) = d # r"
          using capitalize_hd by blast
        have dn: "dropWhile isspace (capitalize_sentences cs) = d # r"
          by (simp only: dropWhile_capitalize Cons r)
        show ?thesis
          by (simp only: capitalize_end_other [OF se Cons False]
                capitalize_end_other [OF se dn False] ih)
      next
        case True
        have ih: "capitalize_sentences (capitalize_sentences ds) = capitalize_sentences ds"
          using "2.IH"(2) [OF se Cons True] .
        define w where "w = takeWhile isspace cs"
        define t where "t = (d - 32) # capitalize_sentences ds"
        have w: "\<forall>x\<in>set w. isspace x" unfolding w_def by (auto dest: set_takeWhileD)
        have step: "capitalize_sentences (c # cs) = c # w @ t"
          unfolding w_def t_def by (rule capitalize_end_az [OF se Cons True])
        from True have nsp: "\<not> isspace (d - 32)" and naz: "\<not> is_az (d - 32)"
          and nse: "\<not> is_sentence_end (d - 32)"
          using az_upper_classes [of d] by simp_all
        have dw: "dropWhile isspace (w @ t) = (d - 32) # capitalize_sentences ds"
          using w nsp by (simp add: dropWhile_append t_def)
        have "capitalize_sentences (c # w @ t) = c # capitalize_sentences (w @ t)"
          using se dw naz by (rule capitalize_end_other)
        also have "capitalize_sentences (w @ t) = w @ capitalize_sentences t"
          using w by (rule capitalize_ws_prefix)
        also have "capitalize_sentences t = t"
          unfolding t_def using nse ih by (simp add: capitalize_other)
        finally show ?thesis by (simp only: step)
      qed
    qed
  qed
qed

section \<open>The transcript buffer: properties\<close>

text \<open>
  C4. Display formatting is idempotent: for every string \<open>s\<close>, formatting the formatted
  string gives the formatted string again. The formatting collapses whitespace, trims,
  puts the first character in upper case and every \<^verbatim>\<open>[a-z]\<close> that follows \<^verbatim>\<open>.\<close>, \<^verbatim>\<open>!\<close> or
  \<^verbatim>\<open>?\<close> and optional whitespace.
\<close>

theorem format_text_idempotent: "format_text (format_text s) = format_text s"
proof (cases "s = [] \<or> strip s = []")
  case True
  then show ?thesis by (auto simp: format_text_def)
next
  case False
  then have ne: "s \<noteq> []" and sne: "strip s \<noteq> []" by simp_all
  define u where "u = collapse_ws (strip s)"
  have tu: "tidy_from True u" unfolding u_def using sne by (rule tidy_collapse_strip)
  then obtain c cs where u: "u = c # cs" by (cases u) auto
  from tu u have nc: "\<not> isspace c" by (auto split: if_splits)
  obtain h t where up: "upper c = h # t" using upper_nonempty [of c] by (cases "upper c") auto
  define w where "w = capitalize_sentences (upper c @ cs)"
  have fs: "format_text s = w"
    using ne u by (simp add: format_text_def u_def [symmetric] w_def)
  have "\<forall>x\<in>set (upper c). \<not> isspace x" using nc upper_no_space by blast
  then have "tidy_from True (upper c @ cs) = tidy_from False cs"
    using upper_nonempty [of c] by (intro tidy_from_word) simp_all
  moreover from tu u nc have "tidy_from False cs" by simp
  ultimately have tv: "tidy_from True (upper c @ cs)" by simp
  have "list_all2 az_upcased (upper c @ cs) w"
    unfolding w_def by (rule capitalize_az_upcased)
  with tv have tw: "tidy_from True w" by (simp only: az_upcased_tidy)
  have sw: "strip w = w" using tw by (rule tidy_from_strip)
  have cw: "collapse_ws w = w" using tw by (rule tidy_from_collapse)
  obtain r where r: "w = h # r"
    unfolding w_def up using capitalize_hd [of h "t @ cs"] by auto
  have wne: "w \<noteq> []" using r by simp
  have "upper h = [h]" using upper_hd_fixed [of c] by (simp add: up)
  then have "(case w of [] \<Rightarrow> [] | a # as \<Rightarrow> upper a @ as) = w" by (simp add: r)
  with wne have "format_text w = capitalize_sentences w"
    by (simp add: format_text_def sw cw)
  also have "\<dots> = w" unfolding w_def by (rule capitalize_idem)
  finally show ?thesis by (simp add: fs)
qed

theorem format_text_idempotent_witness:
  "format_text (format_text (str ''  hi.  there ?ok'')) = str ''Hi. There ?Ok'' \<and>
   format_text (format_text [223, 46, 160, 97, 5760, 255]) = [83, 83, 46, 32, 65, 32, 255]"
proof -
  have 1: "format_text (str ''  hi.  there ?ok'') = str ''Hi. There ?Ok''" by code_simp
  have 2: "format_text [223, 46, 160, 97, 5760, 255] = [83, 83, 46, 32, 65, 32, 255]"
    by code_simp
  from format_text_idempotent [of "str ''  hi.  there ?ok''"] 1
  have "format_text (format_text (str ''  hi.  there ?ok'')) = str ''Hi. There ?Ok''"
    by (simp only:)
  moreover from format_text_idempotent [of "[223, 46, 160, 97, 5760, 255]"] 2
  have "format_text (format_text [223, 46, 160, 97, 5760, 255]) = [83, 83, 46, 32, 65, 32, 255]"
    by (simp only:)
  ultimately show ?thesis by (intro conjI)
qed

text \<open>
  C9. Whatever the buffer held, after \<^verbatim>\<open>clear()\<close> both fields are empty, the full text is
  the empty string and the word count is 0.
\<close>

theorem clear_total:
  "get_full_text (clear b) = [] \<and> get_word_count (clear b) = 0 \<and>
   final_text (clear b) = [] \<and> partial_text (clear b) = []"
  by (simp add: clear_def get_full_text_def get_word_count_def strip_def format_text_def)

theorem clear_total_witness:
  "get_full_text (clear step4) = [] \<and> get_word_count (clear step4) = 0 \<and>
   final_text (clear step4) = [] \<and> partial_text (clear step4) = []"
  by (rule clear_total)

text \<open>
  C1, as the code computes it. From an empty buffer the two partial results show as
  \<^verbatim>\<open>Hello\<close> and \<^verbatim>\<open>Hello world\<close>; after the first final result the text is \<^verbatim>\<open>Hello world\<close>
  with 2 words; after the second it is \<^verbatim>\<open>Hello world this is a test. Hello world\<close> with
  8 words (the word \<^verbatim>\<open>this\<close> follows no sentence end and stays in lower case); after
  \<^verbatim>\<open>clear()\<close> the text is empty.
\<close>

theorem scenario_values:
  "get_full_text step1 = (str ''Hello'') \<and>
   get_full_text step2 = (str ''Hello world'') \<and>
   get_full_text step3 = (str ''Hello world'') \<and>
   get_word_count step3 = 2 \<and>
   get_full_text step4 = (str ''Hello world this is a test. Hello world'') \<and>
   get_word_count step4 = 8 \<and>
   get_full_text (clear step4) = []"
  by code_simp

text \<open>
  The values that the specification lists for the last step of the scenario, a capital
  \<^verbatim>\<open>This\<close> and 7 words, are not the ones of the code.
\<close>

theorem scenario_as_specified_fails:
  "get_full_text step4 \<noteq> (str ''Hello world This is a test. Hello world'') \<and>
   get_word_count step4 \<noteq> 7"
  by code_simp

text \<open>
  C2, as the code does it. A non-empty final text is normalised and appended to
  \<open>final_text\<close> with one trailing space, and \<open>partial_text\<close> is cleared; an empty final
  text leaves the whole buffer as it was, the partial text included.
\<close>

theorem add_final_text_effect:
  "(text \<noteq> [] \<longrightarrow>
      final_text (add_final_text text b) = final_text b @ clean_text text @ (str '' '') \<and>
      partial_text (add_final_text text b) = []) \<and>
   (text = [] \<longrightarrow> add_final_text text b = b)"
  by (simp add: add_final_text_def)

theorem add_final_text_effect_witness:
  "final_text (add_final_text (str ''  a   b '') step2) = (str ''a b '') \<and>
   partial_text (add_final_text (str ''  a   b '') step2) = [] \<and>
   add_final_text [] step2 = step2"
proof -
  have ne: "(str ''  a   b '') \<noteq> []" by (simp add: str_def)
  have c: "final_text step2 @ clean_text (str ''  a   b '') @ (str '' '') = (str ''a b '')" by code_simp
  from add_final_text_effect [of "(str ''  a   b '')" step2] ne c
  have "final_text (add_final_text (str ''  a   b '') step2) = (str ''a b '')"
    and "partial_text (add_final_text (str ''  a   b '') step2) = []" by simp_all
  moreover from add_final_text_effect [of "[]" step2]
  have "add_final_text [] step2 = step2" by simp
  ultimately show ?thesis by simp
qed

text \<open>
  An empty final text after the partial text \<^verbatim>\<open>hello\<close>: the partial text is still there.
\<close>

theorem add_final_empty_keeps_partial:
  "partial_text (add_final_text [] (add_partial_text (str ''hello'') init_buffer)) = (str ''hello'')"
  by code_simp

lemma final_text_fold:
  "prefix (final_text b) (final_text (fold apply_call calls b))"
proof (induction calls arbitrary: b)
  case Nil
  show ?case by simp
next
  case (Cons c calls)
  have "prefix (final_text b) (final_text (apply_call c b))"
    by (cases c) (simp_all add: add_partial_text_def add_final_text_def)
  moreover have "prefix (final_text (apply_call c b))
      (final_text (fold apply_call calls (apply_call c b)))"
    by (rule Cons.IH)
  ultimately show ?case by (auto intro: prefix_order.trans)
qed

text \<open>
  C7. \<open>final_text\<close> is append-only: after \<^verbatim>\<open>add_partial_text\<close>, after \<^verbatim>\<open>add_final_text\<close> and
  after any sequence of such calls, the \<open>final_text\<close> from before the calls is a prefix
  of the new one; \<^verbatim>\<open>clear()\<close> resets it to the empty string.
\<close>

theorem final_text_append_only:
  "prefix (final_text b) (final_text (add_partial_text text b)) \<and>
   prefix (final_text b) (final_text (add_final_text text' b)) \<and>
   prefix (final_text b) (final_text (fold apply_call calls b)) \<and>
   final_text (clear b) = []"
  by (simp add: final_text_fold add_partial_text_def add_final_text_def clear_def)

theorem final_text_append_only_witness:
  "prefix (final_text step3) (final_text (add_partial_text (str ''how are'') step3)) \<and>
   prefix (final_text step3) (final_text (add_final_text (str ''how are you'') step3)) \<and>
   prefix (final_text step3)
     (final_text (fold apply_call [AddPartial (str ''how are''), AddFinal (str ''how are you'')] step3)) \<and>
   final_text (clear step3) = []"
  by (rule final_text_append_only)

text \<open>
  C8. The word count is the number of whitespace-separated tokens of \<open>final_text\<close>: two
  buffers with the same \<open>final_text\<close> have the same count, and no call, nor any sequence of
  calls, of \<^verbatim>\<open>add_partial_text\<close> changes it.
\<close>

theorem word_count_ignores_partial:
  "get_word_count b = int (length (split_ws (final_text b))) \<and>
   (final_text b = final_text b' \<longrightarrow> get_word_count b = get_word_count b') \<and>
   get_word_count (add_partial_text text b) = get_word_count b \<and>
   get_word_count (fold apply_call (map AddPartial texts) b) = get_word_count b"
proof -
  have "final_text (fold apply_call (map AddPartial texts) b) = final_text b"
    by (induction texts arbitrary: b) (simp_all add: add_partial_text_def)
  then show ?thesis by (simp add: get_word_count_def add_partial_text_def)
qed

theorem word_count_ignores_partial_witness:
  "final_text step3 = final_text (add_partial_text (str ''x'') step3) \<and>
   get_word_count step3 = get_word_count (add_partial_text (str ''x'') step3) \<and>
   get_word_count (add_partial_text (str ''how are'') step3) = 2 \<and>
   get_word_count (fold apply_call [AddPartial (str ''how''), AddPartial (str ''how are'')] step3) = 2"
proof -
  have f: "final_text step3 = final_text (add_partial_text (str ''x'') step3)" by code_simp
  have v: "get_word_count step3 = 2" by code_simp
  note w = word_count_ignores_partial
    [of step3 "add_partial_text (str ''x'') step3" "(str ''how are'')" "[(str ''how''), (str ''how are'')]"]
  from w f have "get_word_count step3 = get_word_count (add_partial_text (str ''x'') step3)"
    by blast
  moreover from w v have "get_word_count (add_partial_text (str ''how are'') step3) = 2"
    by simp
  moreover from w v
  have "get_word_count (fold apply_call [AddPartial (str ''how''), AddPartial (str ''how are'')] step3) = 2"
    by simp
  ultimately show ?thesis using f by blast
qed

section \<open>The recognition engine: properties\<close>

lemma process_audio_cases:
  "process_audio eng audio_data = Inr no_results \<or>
   (\<exists>r res. recognizer eng = Some r \<and> feed_recognizer r audio_data = Inr res \<and>
      process_audio eng audio_data = Inr res)"
  by (auto simp: process_audio_def split: option.splits sum.splits)

lemma feed_recognizer_one:
  "feed_recognizer r audio_data = Inr res \<Longrightarrow> partial res = None \<or> final res = None"
  by (auto simp: feed_recognizer_def no_results_def split: sum.splits bool.splits if_splits)

text \<open>
  C5, as the code does it. \<^verbatim>\<open>process_audio\<close> always returns a dictionary and never raises.
  When the engine is not active or has no recogniser it returns the dictionary with both
  entries \<^verbatim>\<open>None\<close>, with no error reported to the caller; when the recogniser raises on a
  chunk the error is caught and the same dictionary is returned, so the caller's stream goes
  on.
\<close>

theorem process_audio_never_raises:
  "(\<exists>res. process_audio eng audio_data = Inr res) \<and>
   (\<not> is_active eng \<or> recognizer eng = None \<longrightarrow>
      process_audio eng audio_data = Inr no_results) \<and>
   (is_active eng \<and> recognizer eng = Some r \<and> feed_recognizer r audio_data = Inl e \<longrightarrow>
      process_audio eng audio_data = Inr no_results)"
  using process_audio_cases [of eng audio_data]
  by (auto simp: process_audio_def)

theorem process_audio_never_raises_witness:
  "\<not> is_active idle_engine \<and> recognizer idle_engine = None \<and>
   process_audio idle_engine [1, 2] = Inr no_results \<and>
   is_active (started_engine\<lparr>recognizer := Some failing_recognizer\<rparr>) \<and>
   feed_recognizer failing_recognizer [1, 2] = Inl (Exception ''bad frame'') \<and>
   process_audio (started_engine\<lparr>recognizer := Some failing_recognizer\<rparr>) [1, 2]
     = Inr no_results"
proof -
  let ?eng = "started_engine\<lparr>recognizer := Some failing_recognizer\<rparr>"
  have i: "\<not> is_active idle_engine \<or> recognizer idle_engine = None"
    by (simp add: idle_engine_def)
  have a: "is_active ?eng" by (simp add: started_engine_def)
  have r: "recognizer ?eng = Some failing_recognizer" by simp
  have f: "feed_recognizer failing_recognizer [1, 2] = Inl (Exception ''bad frame'')"
    by (simp add: failing_recognizer_def feed_recognizer_def)
  have 1: "process_audio idle_engine [1, 2] = Inr no_results"
    using process_audio_never_raises [of idle_engine "[1, 2]", THEN conjunct2, THEN conjunct1] i
    by (rule mp)
  have 2: "process_audio ?eng [1, 2] = Inr no_results"
    using process_audio_never_raises
      [of ?eng "[1, 2]" failing_recognizer "Exception ''bad frame''",
       THEN conjunct2, THEN conjunct2]
    by (rule mp) (intro conjI a r f)
  have n: "\<not> is_active idle_engine" and m: "recognizer idle_engine = None"
    by (simp_all add: idle_engine_def)
  from n m 1 a f 2 show ?thesis by (intro conjI)
qed

text \<open>
  A call on an engine that was reset, or that is flagged active without a recogniser,
  returns normally with the empty result: the missing recogniser is not reported.
\<close>

theorem process_audio_silent_when_idle:
  "process_audio idle_engine [] = Inr \<lparr>partial = None, final = None\<rparr> \<and>
   process_audio \<lparr>is_active = True, recognizer = None\<rparr> [] = Inr \<lparr>partial = None, final = None\<rparr>"
  by (simp add: process_audio_def idle_engine_def no_results_def)

text \<open>
  C10. \<^verbatim>\<open>process_audio\<close> returns a dictionary in which at most one of \<^verbatim>\<open>'partial'\<close> and
  \<^verbatim>\<open>'final'\<close> is not \<^verbatim>\<open>None\<close>; when the engine is not active or has no recogniser both
  are \<^verbatim>\<open>None\<close>.
\<close>

theorem process_audio_at_most_one:
  "\<exists>res. process_audio eng audio_data = Inr res \<and>
     (partial res = None \<or> final res = None) \<and>
     (\<not> is_active eng \<or> recognizer eng = None \<longrightarrow> partial res = None \<and> final res = None)"
proof (cases "\<not> is_active eng \<or> recognizer eng = None")
  case True
  then have "process_audio eng audio_data = Inr no_results"
    by (auto simp: process_audio_def)
  then show ?thesis by (simp add: no_results_def)
next
  case False
  from process_audio_cases [of eng audio_data] show ?thesis
  proof
    assume "process_audio eng audio_data = Inr no_results"
    then show ?thesis by (simp add: no_results_def)
  next
    assume "\<exists>r res. recognizer eng = Some r \<and> feed_recognizer r audio_data = Inr res \<and>
      process_audio eng audio_data = Inr res"
    then obtain r res where f: "feed_recognizer r audio_data = Inr res"
      and p: "process_audio eng audio_data = Inr res" by blast
    from f have o: "partial res = None \<or> final res = None" by (rule feed_recognizer_one)
    show ?thesis
    proof (intro exI conjI)
      show "process_audio eng audio_data = Inr res" by (rule p)
      show "partial res = None \<or> final res = None" by (rule o)
      show "\<not> is_active eng \<or> recognizer eng = None \<longrightarrow>
          partial res = None \<and> final res = None"
      proof
        assume "\<not> is_active eng \<or> recognizer eng = None"
        with False show "partial res = None \<and> final res = None" by (rule notE)
      qed
    qed
  qed
qed

theorem process_audio_at_most_one_witness:
  "\<not> is_active idle_engine \<and> recognizer idle_engine = None \<and>
   process_audio idle_engine [1, 2] = Inr \<lparr>partial = None, final = None\<rparr> \<and>
   process_audio started_engine [1, 2] = Inr \<lparr>partial = None, final = Some (str ''hello  world'')\<rparr>"
proof -
  have i: "\<not> is_active idle_engine \<or> recognizer idle_engine = None"
    by (simp add: idle_engine_def)
  from process_audio_at_most_one [of idle_engine "[1, 2]"]
  obtain res where p: "process_audio idle_engine [1, 2] = Inr res"
    and n: "\<not> is_active idle_engine \<or> recognizer idle_engine = None \<longrightarrow>
       partial res = None \<and> final res = None"
    by (elim exE conjE)
  from n i have "partial res = None \<and> final res = None" by (rule mp)
  then have "res = \<lparr>partial = None, final = None\<rparr>" by (cases res) simp
  with p have 1: "process_audio idle_engine [1, 2] = Inr \<lparr>partial = None, final = None\<rparr>"
    by simp
  have 2: "process_audio started_engine [1, 2]
      = Inr \<lparr>partial = None, final = Some (str ''hello  world'')\<rparr>"
    by code_simp
  have n: "\<not> is_active idle_engine" and m: "recognizer idle_engine = None"
    by (simp_all add: idle_engine_def)
  from n m 1 2 show ?thesis by (intro conjI)
qed

section \<open>The frame queue: properties\<close>

lemma put_not_full:
  "\<not> is_full q \<Longrightarrow> recording_worker_put x q = q\<lparr>items := items q @ [x]\<rparr>"
  by (simp add: recording_worker_put_def put_def)

lemma put_full:
  "0 < maxsize q \<Longrightarrow> length (items q) = maxsize q \<Longrightarrow> items q = y # ys \<Longrightarrow>
   recording_worker_put x q = q\<lparr>items := ys @ [x]\<rparr>"
  by (simp add: recording_worker_put_def put_def get_nowait_def is_full_def)

lemma audio_capture_worker_put_eq:
  "c \<noteq> [] \<Longrightarrow> audio_capture_worker_put (Some c) q = recording_worker_put c q"
  by (simp add: audio_capture_worker_put_def recording_worker_put_def)

lemma recording_worker_put_bounded:
  assumes "maxsize q = 100" and "length (items q) \<le> 100"
  shows "maxsize (recording_worker_put x q) = 100 \<and>
         length (items (recording_worker_put x q)) \<le> 100"
proof (cases "is_full q")
  case False
  with assms have "length (items q) < 100" by (simp add: is_full_def)
  with assms False show ?thesis by (simp add: put_not_full)
next
  case True
  with assms have "length (items q) = 100" by (simp add: is_full_def)
  then obtain y ys where i: "items q = y # ys" by (cases "items q") auto
  have "recording_worker_put x q = q\<lparr>items := ys @ [x]\<rparr>"
  proof (rule put_full)
    show "0 < maxsize q" using assms by simp
    show "length (items q) = maxsize q" using assms \<open>length (items q) = 100\<close> by simp
    show "items q = y # ys" by (rule i)
  qed
  with assms i show ?thesis by simp
qed

lemma fold_put_bounded:
  "maxsize q = 100 \<Longrightarrow> length (items q) \<le> 100 \<Longrightarrow>
   length (items (fold recording_worker_put frames q)) \<le> 100"
proof (induction frames arbitrary: q)
  case Nil
  then show ?case by simp
next
  case (Cons x frames)
  from recording_worker_put_bounded [OF Cons.prems, of x]
  have "maxsize (recording_worker_put x q) = 100"
    and "length (items (recording_worker_put x q)) \<le> 100" by simp_all
  then have "length (items (fold recording_worker_put frames (recording_worker_put x q))) \<le> 100"
    by (rule Cons.IH)
  then show ?case by simp
qed

text \<open>
  C6. A frame queue of capacity 100 that holds at most 100 chunks still holds at most 100
  after the capture worker queues a chunk, and after any number of such steps, also from
  the empty queue. On a full queue the step removes the oldest chunk and appends the new
  one; below capacity it appends the new chunk. The worker of \<^verbatim>\<open>main.py\<close> does the same
  for every non-empty chunk. No queue call of the step waits without a timeout.
\<close>

theorem frame_queue_bounded:
  assumes "maxsize q = 100" and "length (items q) \<le> 100"
  shows "length (items (recording_worker_put x q)) \<le> 100 \<and>
         (length (items q) = 100 \<longrightarrow>
            items (recording_worker_put x q) = tl (items q) @ [x]) \<and>
         (length (items q) < 100 \<longrightarrow>
            items (recording_worker_put x q) = items q @ [x]) \<and>
         (c \<noteq> [] \<longrightarrow> audio_capture_worker_put (Some c) fq = recording_worker_put c fq) \<and>
         length (items (fold recording_worker_put frames q)) \<le> 100 \<and>
         length (items (fold recording_worker_put frames (new_queue 100))) \<le> 100"
proof -
  have 1: "length (items (recording_worker_put x q)) \<le> 100"
    using recording_worker_put_bounded [OF assms] by simp
  have 2: "items (recording_worker_put x q) = tl (items q) @ [x]" if l: "length (items q) = 100"
  proof -
    from l obtain y ys where i: "items q = y # ys" by (cases "items q") auto
    have "recording_worker_put x q = q\<lparr>items := ys @ [x]\<rparr>"
    proof (rule put_full)
      show "0 < maxsize q" using assms by simp
      show "length (items q) = maxsize q" using assms l by simp
      show "items q = y # ys" by (rule i)
    qed
    then show ?thesis by (simp add: i)
  qed
  have 3: "items (recording_worker_put x q) = items q @ [x]" if l: "length (items q) < 100"
  proof -
    from l assms have f: "\<not> is_full q" by (simp add: is_full_def)
    show ?thesis by (simp add: put_not_full [OF f])
  qed
  have 4: "length (items (fold recording_worker_put frames q)) \<le> 100"
    using assms by (rule fold_put_bounded)
  have 5: "length (items (fold recording_worker_put frames (new_queue 100))) \<le> 100"
    by (rule fold_put_bounded) (simp_all add: new_queue_def)
  from 1 2 3 4 5 show ?thesis by (simp add: audio_capture_worker_put_eq)
qed

theorem frame_queue_bounded_witness:
  "maxsize full_frame_queue = 100 \<and> length (items full_frame_queue) = 100 \<and>
   length (items (recording_worker_put [7] full_frame_queue)) \<le> 100 \<and>
   items (recording_worker_put [7] full_frame_queue) = tl (items full_frame_queue) @ [[7]] \<and>
   audio_capture_worker_put (Some [7]) full_frame_queue
     = recording_worker_put [7] full_frame_queue"
proof -
  have m: "maxsize full_frame_queue = 100" by (simp add: full_frame_queue_def)
  have l: "length (items full_frame_queue) = 100" by (simp add: full_frame_queue_def)
  then have le: "length (items full_frame_queue) \<le> 100" by simp
  have ne: "[7] \<noteq> ([] :: frame)" by simp
  note a = frame_queue_bounded [OF m le, of "[7]" "[7]" full_frame_queue "[]"]
  from a have "length (items (recording_worker_put [7] full_frame_queue)) \<le> 100"
    by (rule conjunct1)
  moreover from a l
  have "items (recording_worker_put [7] full_frame_queue) = tl (items full_frame_queue) @ [[7]]"
    by (elim conjE) (rule mp)
  moreover from a ne
  have "audio_capture_worker_put (Some [7]) full_frame_queue
     = recording_worker_put [7] full_frame_queue"
    by (elim conjE) (rule mp)
  ultimately show ?thesis using m l by (intro conjI)
qed

section \<open>Stopping a recording: properties\<close>

subsection \<open>A normalised text at the end of the buffer\<close>

lemma strip_Nil [simp]: "strip [] = []"
  by (simp add: strip_def)

lemma strip_idem: "strip (strip s) = strip s"
proof -
  define t where "t = strip s"
  have "strip t = t"
  proof (cases "t = []")
    case True
    then show ?thesis by simp
  next
    case False
    then have "strip s \<noteq> []" by (simp add: t_def)
    then have "\<not> isspace (hd (strip s)) \<and> \<not> isspace (last (strip s))"
      by (rule strip_ends)
    then have h: "\<not> isspace (hd t)" and l: "\<not> isspace (last t)"
      by (simp_all add: t_def)
    from False h have a: "dropWhile isspace t = t" by (cases t) simp_all
    from False l have b: "dropWhile isspace (rev t) = rev t"
      by (cases "rev t") (simp_all add: hd_rev)
    show ?thesis by (simp add: strip_def a b)
  qed
  then show ?thesis by (simp add: t_def)
qed

lemma dropWhile_append_word:
  "c \<noteq> [] \<Longrightarrow> \<not> isspace (hd c) \<Longrightarrow>
   dropWhile isspace (F @ c) = dropWhile isspace F @ c"
  by (cases c) (simp_all add: dropWhile_append)

lemma strip_append_tidy:
  assumes "tidy_from True c"
  shows "strip (F @ c @ [32]) = dropWhile isspace F @ c"
proof -
  from assms have ne: "c \<noteq> []" by (cases c) auto
  from assms have "dropWhile isspace c = c" by (rule tidy_from_True_head)
  with ne have h: "\<not> isspace (hd c)" by (metis hd_dropWhile)
  from assms ne have l: "\<not> isspace (last c)" by (rule tidy_from_last)
  define D where "D = dropWhile isspace F"
  have "dropWhile isspace (F @ (c @ [32])) = D @ c @ [32]"
    unfolding D_def using ne h by (intro dropWhile_append_word) simp_all
  then have 1: "dropWhile isspace (F @ c @ [32]) = D @ c @ [32]" by simp
  have "rev (D @ c @ [32]) = 32 # (rev c @ rev D)" by simp
  moreover have "dropWhile isspace (rev c @ rev D) = rev c @ rev D"
    using ne l by (cases "rev c") (simp_all add: hd_rev)
  ultimately have "dropWhile isspace (rev (D @ c @ [32])) = rev c @ rev D" by simp
  then have "rev (dropWhile isspace (rev (D @ c @ [32]))) = D @ c" by simp
  with 1 show ?thesis by (simp add: strip_def D_def)
qed

lemma collapse_append_tidy:
  "tidy_from True c \<Longrightarrow> \<exists>pre. collapse_ws (D @ c) = pre @ c"
proof (induction D rule: collapse_ws.induct)
  case 1
  then have "collapse_ws c = c" by (rule tidy_from_collapse)
  then show ?case by simp
next
  case (2 a D)
  from "2.prems" have ne: "c \<noteq> []" by (cases c) auto
  from "2.prems" have "dropWhile isspace c = c" by (rule tidy_from_True_head)
  with ne have h: "\<not> isspace (hd c)" by (metis hd_dropWhile)
  show ?case
  proof (cases "isspace a")
    case True
    from "2.IH"(1) [OF True "2.prems"]
    obtain pre where "collapse_ws (dropWhile isspace D @ c) = pre @ c" by blast
    moreover have "dropWhile isspace (D @ c) = dropWhile isspace D @ c"
      using ne h by (rule dropWhile_append_word)
    ultimately have "collapse_ws ((a # D) @ c) = (32 # pre) @ c"
      using True by simp
    then show ?thesis by blast
  next
    case False
    from "2.IH"(2) [OF False "2.prems"]
    obtain pre where "collapse_ws (D @ c) = pre @ c" by blast
    with False have "collapse_ws ((a # D) @ c) = (a # pre) @ c" by simp
    then show ?thesis by blast
  qed
qed

lemma az_upcased_upcased: "az_upcased a b \<Longrightarrow> upcased a [b]"
  by (auto simp: az_upcased_def upcased_def)

lemma format_text_upcased:
  "\<exists>pieces. format_text s = concat pieces \<and> list_all2 upcased (collapse_ws (strip s)) pieces"
proof (cases "s = []")
  case True
  then have "format_text s = concat [] \<and> list_all2 upcased (collapse_ws (strip s)) []"
    by (simp add: format_text_def)
  then show ?thesis by (rule exI)
next
  case False
  define u where "u = collapse_ws (strip s)"
  show ?thesis
  proof (cases u)
    case Nil
    with False have "format_text s = concat [] \<and> list_all2 upcased (collapse_ws (strip s)) []"
      by (simp add: format_text_def u_def [symmetric])
    then show ?thesis by (rule exI)
  next
    case (Cons c cs)
    define w where "w = capitalize_sentences (upper c @ cs)"
    have f: "format_text s = w"
      using False Cons by (simp add: format_text_def u_def [symmetric] w_def)
    have "list_all2 az_upcased (upper c @ cs) w"
      unfolding w_def by (rule capitalize_az_upcased)
    then obtain w1 w2 where w: "w = w1 @ w2"
      and 1: "list_all2 az_upcased (upper c) w1" and 2: "list_all2 az_upcased cs w2"
      by (auto simp: list_all2_append1)
    have "\<forall>x\<in>set (upper c). \<not> is_az x" using upper_no_az by blast
    with 1 have w1: "w1 = upper c" by (rule az_upcased_no_az)
    define pieces where "pieces = upper c # map (\<lambda>b. [b]) w2"
    have "concat pieces = upper c @ w2" by (simp add: pieces_def)
    with w w1 f have a: "format_text s = concat pieces" by simp
    from 2 have "list_all2 (\<lambda>x y. upcased x [y]) cs w2"
      by (rule list_all2_mono) (rule az_upcased_upcased)
    then have "list_all2 upcased cs (map (\<lambda>b. [b]) w2)" by (simp add: list_all2_map2)
    then have "list_all2 upcased (c # cs) pieces"
      by (simp add: pieces_def upcased_def)
    with Cons have b: "list_all2 upcased (collapse_ws (strip s)) pieces"
      by (simp add: u_def)
    from a b have "format_text s = concat pieces \<and>
        list_all2 upcased (collapse_ws (strip s)) pieces" by (rule conjI)
    then show ?thesis by (rule exI)
  qed
qed

lemma get_final_result_stripped: "strip (get_final_result eng) = get_final_result eng"
  by (simp add: get_final_result_def strip_idem split: option.split sum.split)

lemma text_buffer_send_text_update [simp]:
  "text_buffer (send_text_update utype text app) = text_buffer app"
  by (simp add: send_text_update_def Let_def split: sum.split)

lemma recording_send_text_update [simp]:
  "recording (send_text_update utype text app) = recording app"
  by (simp add: send_text_update_def Let_def split: sum.split)

lemma text_buffer_stop_recording:
  "recording app \<Longrightarrow>
   text_buffer (stop_recording app) =
     (if get_final_result (vosk_engine app) \<noteq> []
      then add_final_text (get_final_result (vosk_engine app)) (text_buffer app)
      else text_buffer app)"
  by (simp add: stop_recording_def finalize_transcription_def Let_def)

lemma recording_stop_recording: "\<not> recording (stop_recording app)"
  by (simp add: stop_recording_def finalize_transcription_def Let_def)

lemma full_text_ends_with_final:
  assumes t: "strip t = t" and ne: "t \<noteq> []"
  shows "\<exists>pre pieces. get_full_text (add_final_text t b) = pre @ concat pieces \<and>
           list_all2 upcased (clean_text t) pieces"
proof -
  define c where "c = clean_text t"
  have c: "c = collapse_ws (strip t)" using ne by (simp add: c_def clean_text_def)
  have "strip t \<noteq> []" using t ne by simp
  then have tidy: "tidy_from True c" unfolding c by (rule tidy_collapse_strip)
  define X where "X = strip (final_text b @ c @ [32])"
  have X: "X = dropWhile isspace (final_text b) @ c"
    unfolding X_def using tidy by (rule strip_append_tidy)
  have g: "get_full_text (add_final_text t b) = format_text X"
    using ne by (simp add: get_full_text_def add_final_text_def X_def c_def)
  have sx: "strip X = X" unfolding X_def by (rule strip_idem)
  obtain pre where p: "collapse_ws X = pre @ c"
    unfolding X using collapse_append_tidy [OF tidy] by blast
  obtain ps where f: "format_text X = concat ps"
    and l: "list_all2 upcased (collapse_ws (strip X)) ps"
    using format_text_upcased [of X] by blast
  from l sx p have "list_all2 upcased (pre @ c) ps" by simp
  then obtain ps1 ps2 where "ps = ps1 @ ps2" and "list_all2 upcased c ps2"
    by (auto simp: list_all2_append1)
  with f g have "get_full_text (add_final_text t b) = concat ps1 @ concat ps2 \<and>
      list_all2 upcased (clean_text t) ps2"
    by (simp add: c_def)
  then show ?thesis by blast
qed

text \<open>
  C3. When \<^verbatim>\<open>stop_recording()\<close> is called on a recording application, the result that the
  recogniser gives up on the final flush (\<^verbatim>\<open>get_final_result()\<close>), if it is not empty, is
  appended to \<open>final_text\<close>, whitespace-normalised and followed by one space, and the
  partial text is cleared; the text that \<^verbatim>\<open>get_full_text()\<close> returns afterwards ends with
  the flushed text, up to the capitalisation of display formatting (each character as it
  is or replaced by its upper case). The flush is made on every such stop: when it yields
  nothing, as it does when the recogniser raises, the buffer is as before, and in every
  case the application has left the recording state. The statement is about the calling
  thread; what the worker threads do meanwhile is not part of the model.
\<close>

theorem stop_recording_flushes:
  assumes "recording app"
  shows "(get_final_result (vosk_engine app) \<noteq> [] \<longrightarrow>
           final_text (text_buffer (stop_recording app)) =
             final_text (text_buffer app) @ clean_text (get_final_result (vosk_engine app))
               @ str '' '' \<and>
           partial_text (text_buffer (stop_recording app)) = [] \<and>
           (\<exists>pre pieces.
              get_full_text (text_buffer (stop_recording app)) = pre @ concat pieces \<and>
              list_all2 upcased (clean_text (get_final_result (vosk_engine app))) pieces)) \<and>
         (get_final_result (vosk_engine app) = [] \<longrightarrow>
           text_buffer (stop_recording app) = text_buffer app) \<and>
         \<not> recording (stop_recording app)"
proof -
  define t where "t = get_final_result (vosk_engine app)"
  have st: "strip t = t" unfolding t_def by (rule get_final_result_stripped)
  have tb: "text_buffer (stop_recording app) =
     (if t \<noteq> [] then add_final_text t (text_buffer app) else text_buffer app)"
    unfolding t_def using assms by (rule text_buffer_stop_recording)
  have 1: "final_text (text_buffer (stop_recording app)) =
             final_text (text_buffer app) @ clean_text t @ str '' '' \<and>
           partial_text (text_buffer (stop_recording app)) = [] \<and>
           (\<exists>pre pieces.
              get_full_text (text_buffer (stop_recording app)) = pre @ concat pieces \<and>
              list_all2 upcased (clean_text t) pieces)" if ne: "t \<noteq> []"
  proof -
    from tb ne have e: "text_buffer (stop_recording app) = add_final_text t (text_buffer app)"
      by simp
    from full_text_ends_with_final [OF st ne, of "text_buffer app"]
    show ?thesis using ne by (simp add: e add_final_text_def)
  qed
  have 2: "text_buffer (stop_recording app) = text_buffer app" if "t = []"
    using tb that by simp
  have A: "t \<noteq> [] \<longrightarrow>
           final_text (text_buffer (stop_recording app)) =
             final_text (text_buffer app) @ clean_text t @ str '' '' \<and>
           partial_text (text_buffer (stop_recording app)) = [] \<and>
           (\<exists>pre pieces.
              get_full_text (text_buffer (stop_recording app)) = pre @ concat pieces \<and>
              list_all2 upcased (clean_text t) pieces)"
    by (rule impI) (rule 1)
  have B: "t = [] \<longrightarrow> text_buffer (stop_recording app) = text_buffer app"
    by (rule impI) (rule 2)
  have C: "\<not> recording (stop_recording app)" by (rule recording_stop_recording)
  from A B C show ?thesis unfolding t_def by (intro conjI)
qed

theorem stop_recording_flushes_witness:
  "recording recording_app \<and>
   get_final_result (vosk_engine recording_app) = str ''hello  world'' \<and>
   final_text (text_buffer recording_app) = str ''good morning. '' \<and>
   final_text (text_buffer (stop_recording recording_app)) = str ''good morning. hello world '' \<and>
   partial_text (text_buffer (stop_recording recording_app)) = [] \<and>
   get_full_text (text_buffer (stop_recording recording_app)) = str ''Good morning. Hello world''"
proof -
  have r: "recording recording_app" by (simp add: recording_app_def)
  have g: "get_final_result (vosk_engine recording_app) = str ''hello  world''" by code_simp
  then have ne: "get_final_result (vosk_engine recording_app) \<noteq> []" by (simp add: str_def)
  have f: "final_text (text_buffer recording_app) = str ''good morning. ''" by code_simp
  have c: "str ''good morning. '' @ clean_text (str ''hello  world'') @ str '' ''
      = str ''good morning. hello world ''" by code_simp
  note w = stop_recording_flushes [OF r, THEN conjunct1, THEN mp, OF ne]
  from w have "final_text (text_buffer (stop_recording recording_app)) =
      final_text (text_buffer recording_app)
        @ clean_text (get_final_result (vosk_engine recording_app)) @ str '' ''"
    by (rule conjunct1)
  then have 1: "final_text (text_buffer (stop_recording recording_app))
      = str ''good morning. hello world ''"
    by (simp only: g f c)
  from w have 2: "partial_text (text_buffer (stop_recording recording_app)) = []"
    by (elim conjE)
  have "get_full_text \<lparr>final_text = str ''good morning. hello world '', partial_text = [],
      last_partial_length = l\<rparr> = str ''Good morning. Hello world''" for l
    by (simp add: get_full_text_def) code_simp
  with 1 2 have 3: "get_full_text (text_buffer (stop_recording recording_app))
      = str ''Good morning. Hello world''"
    by (cases "text_buffer (stop_recording recording_app)") simp
  from r g f 1 2 3 show ?thesis by (intro conjI)
qed

end
